theory Spec2Isabelle
  imports Complex_Main "HOL-Library.Multiset" "HOL-Library.Sublist"
begin

text \<open>
  A shallow embedding of the metrics and resampling engine of Qmetrics
  (\<open>metrics_calculation.py\<close>, \<open>monte_carlo.py\<close>, \<open>data_processing.py\<close>,
  \<open>visualize.py\<close>), and the properties of it that the design document states.
  The first part holds the definitions, function by function, under the names of the
  source; the second part holds the proofs.
\<close>

section \<open>Python values\<close>

text \<open>
  The programs under study are Python functions over NumPy arrays and pandas frames.
  An exception raised by the source is a value of type \<open>py_error\<close>, carried on the left
  of a sum: a function that can raise returns \<open>py_error + 'a\<close>, and \<open>Inl e\<close> means that
  the exception \<open>e\<close> reaches the caller. The string is the message, or the key of a
  \<open>KeyError\<close>.
\<close>

datatype py_error =
    KeyError string
  | ValueError string
  | IndexError string
  | TypeError string
  | AttributeError string
  | ZeroDivisionError string

text \<open>
  A float is a finite value, read as the real number it stands for (rounding and overflow
  are outside the model, and so is the sign of zero), or one of the three special values.
  The operations follow IEEE 754 as NumPy applies it: an invalid operation gives \<open>NaN\<close>
  and every comparison with \<open>NaN\<close> but \<open>!=\<close> is false.
\<close>

datatype pyfloat = Fin real | PInf | NInf | NaN

fun flt :: "pyfloat \<Rightarrow> pyfloat \<Rightarrow> bool" where
  "flt NaN b = False"
| "flt a NaN = False"
| "flt (Fin x) (Fin y) = (x < y)"
| "flt (Fin x) PInf = True"
| "flt (Fin x) NInf = False"
| "flt PInf b = False"
| "flt NInf NInf = False"
| "flt NInf b = True"

definition fgt :: "pyfloat \<Rightarrow> pyfloat \<Rightarrow> bool" where
  "fgt a b = flt b a"

text \<open>\<open>a != b\<close>: true as soon as one side is \<open>NaN\<close>.\<close>

definition fne :: "pyfloat \<Rightarrow> pyfloat \<Rightarrow> bool" where
  "fne a b = (a = NaN \<or> b = NaN \<or> a \<noteq> b)"

text \<open>Truthiness of a float, as \<open>x or 0\<close> tests it: only zero is false, \<open>NaN\<close> is true.\<close>

definition truthy :: "pyfloat \<Rightarrow> bool" where
  "truthy x = (x \<noteq> Fin 0)"

definition py_or :: "pyfloat \<Rightarrow> pyfloat \<Rightarrow> pyfloat" where
  "py_or x y = (if truthy x then x else y)"

fun fneg :: "pyfloat \<Rightarrow> pyfloat" where
  "fneg (Fin x) = Fin (- x)"
| "fneg PInf = NInf"
| "fneg NInf = PInf"
| "fneg NaN = NaN"

fun fabs :: "pyfloat \<Rightarrow> pyfloat" where
  "fabs (Fin x) = Fin \<bar>x\<bar>"
| "fabs PInf = PInf"
| "fabs NInf = PInf"
| "fabs NaN = NaN"

fun fadd :: "pyfloat \<Rightarrow> pyfloat \<Rightarrow> pyfloat" where
  "fadd NaN b = NaN"
| "fadd a NaN = NaN"
| "fadd (Fin x) (Fin y) = Fin (x + y)"
| "fadd (Fin x) b = b"
| "fadd a (Fin y) = a"
| "fadd PInf PInf = PInf"
| "fadd NInf NInf = NInf"
| "fadd PInf NInf = NaN"
| "fadd NInf PInf = NaN"

definition fsub :: "pyfloat \<Rightarrow> pyfloat \<Rightarrow> pyfloat" where
  "fsub a b = fadd a (fneg b)"

text \<open>The sign of a non-\<open>NaN\<close> float, for products and quotients with an infinity.\<close>

fun fsign :: "pyfloat \<Rightarrow> int" where
  "fsign (Fin x) = (if x < 0 then - 1 else if x = 0 then 0 else 1)"
| "fsign PInf = 1"
| "fsign NInf = - 1"
| "fsign NaN = 0"

definition signed_inf :: "int \<Rightarrow> pyfloat" where
  "signed_inf s = (if s = 0 then NaN else if s < 0 then NInf else PInf)"

fun fmul :: "pyfloat \<Rightarrow> pyfloat \<Rightarrow> pyfloat" where
  "fmul NaN b = NaN"
| "fmul a NaN = NaN"
| "fmul (Fin x) (Fin y) = Fin (x * y)"
| "fmul a b = signed_inf (fsign a * fsign b)"

text \<open>
  Division of NumPy floats: a zero divisor does not raise, it gives an infinity with the
  sign of the dividend (the divisor counts as \<open>+0\<close>) or \<open>NaN\<close> for \<open>0/0\<close>.
\<close>

fun fdiv :: "pyfloat \<Rightarrow> pyfloat \<Rightarrow> pyfloat" where
  "fdiv NaN b = NaN"
| "fdiv a NaN = NaN"
| "fdiv (Fin x) (Fin y) = (if y = 0 then signed_inf (fsign (Fin x)) else Fin (x / y))"
| "fdiv (Fin x) b = Fin 0"
| "fdiv a (Fin y) = signed_inf (fsign a * (if y < 0 then - 1 else 1))"
| "fdiv a b = NaN"

text \<open>
  \<open>base ** e\<close> for a NumPy float base and a finite exponent \<open>e\<close>: a negative base with
  a fractional exponent is \<open>NaN\<close>.
\<close>

fun fpow :: "pyfloat \<Rightarrow> real \<Rightarrow> pyfloat" where
  "fpow (Fin x) e =
     (if e = 0 then Fin 1
      else if 0 < x then Fin (x powr e)
      else if x = 0 then (if 0 < e then Fin 0 else PInf)
      else if e \<in> \<int> then Fin (x powi \<lfloor>e\<rfloor>)
      else NaN)"
| "fpow PInf e = (if e = 0 then Fin 1 else if 0 < e then PInf else Fin 0)"
| "fpow NInf e =
     (if e = 0 then Fin 1
      else if 0 < e then (if e \<in> \<int> \<and> odd \<lfloor>e\<rfloor> then NInf else PInf)
      else Fin 0)"
| "fpow NaN e = (if e = 0 then Fin 1 else NaN)"

text \<open>Sum and mean of a pandas float series with \<open>skipna=True\<close>: the mean of no value is \<open>NaN\<close>.\<close>

definition series_sum :: "pyfloat list \<Rightarrow> pyfloat" where
  "series_sum xs = fold (\<lambda>x s. fadd s x) (filter (\<lambda>x. x \<noteq> NaN) xs) (Fin 0)"

definition series_mean :: "pyfloat list \<Rightarrow> pyfloat" where
  "series_mean xs =
     (let ys = filter (\<lambda>x. x \<noteq> NaN) xs
      in if ys = [] then NaN else fdiv (series_sum ys) (Fin (real (length ys))))"

section \<open>NumPy arrays\<close>

text \<open>
  An array is its shape and its elements in row-major order; \<open>ndim\<close> is the length of the
  shape. In a well-formed array the number of elements is the product of the shape.
  Row \<open>r\<close> of a two-dimensional array of shape \<open>[n, c]\<close> is the block of \<open>c\<close> elements
  from \<open>r * c\<close>, and column \<open>i\<close> (the slice \<open>a[:, i]\<close>) picks element \<open>r * c + i\<close> of
  every row.
\<close>

datatype 'a ndarray = NDArray (shape: "nat list") (flat: "'a list")

definition ndim :: "'a ndarray \<Rightarrow> nat" where
  "ndim a = length (shape a)"

definition wf_array :: "'a ndarray \<Rightarrow> bool" where
  "wf_array a = (length (flat a) = prod_list (shape a))"

definition row :: "'a ndarray \<Rightarrow> nat \<Rightarrow> 'a list" where
  "row a r = take (shape a ! 1) (drop (r * (shape a ! 1)) (flat a))"

definition rows :: "'a ndarray \<Rightarrow> 'a list list" where
  "rows a = map (row a) [0..<shape a ! 0]"

definition column :: "'a ndarray \<Rightarrow> nat \<Rightarrow> 'a list" where
  "column a i = map (\<lambda>r. flat a ! (r * (shape a ! 1) + i)) [0..<shape a ! 0]"

text \<open>\<open>a.reshape(1, -1)\<close>: one row holding every element.\<close>

definition reshape_one_row :: "'a ndarray \<Rightarrow> 'a ndarray" where
  "reshape_one_row a = NDArray [1, length (flat a)] (flat a)"

section \<open>Streaks: the scalar loops and the vectorised loops\<close>

text \<open>
  \<open>max_consecutive_losses\<close> and \<open>max_consecutive_wins\<close> of \<open>metrics_calculation.py\<close>:
  one pass over the profits with the two counters of the source as arguments of the loop.
\<close>

fun losses_loop :: "pyfloat list \<Rightarrow> nat \<Rightarrow> nat \<Rightarrow> nat" where
  "losses_loop [] max_loss_streak current_loss_streak = max_loss_streak"
| "losses_loop (profit # profits) max_loss_streak current_loss_streak =
     (if flt profit (Fin 0) then
        (let current_loss_streak = current_loss_streak + 1 in
         losses_loop profits
           (if current_loss_streak > max_loss_streak then current_loss_streak else max_loss_streak)
           current_loss_streak)
      else losses_loop profits max_loss_streak 0)"

definition max_consecutive_losses :: "pyfloat list \<Rightarrow> nat" where
  "max_consecutive_losses profits = losses_loop profits 0 0"

fun wins_loop :: "pyfloat list \<Rightarrow> nat \<Rightarrow> nat \<Rightarrow> nat" where
  "wins_loop [] max_win_streak current_win_streak = max_win_streak"
| "wins_loop (profit # profits) max_win_streak current_win_streak =
     (if fgt profit (Fin 0) then
        (let current_win_streak = current_win_streak + 1 in
         wins_loop profits
           (if current_win_streak > max_win_streak then current_win_streak else max_win_streak)
           current_win_streak)
      else wins_loop profits max_win_streak 0)"

definition max_consecutive_wins :: "pyfloat list \<Rightarrow> nat" where
  "max_consecutive_wins profits = wins_loop profits 0 0"

text \<open>
  \<open>calculate_max_consecutive_losing_trades\<close> and its winning twin of \<open>monte_carlo.py\<close>.
  The boolean matrix \<open>losing\<close> has the shape of the input; the loop runs over the column
  indices \<open>range(losing.shape[1])\<close> and updates the two vectors, one entry per path:
  \<open>np.where(flags[:, i], current_streak + 1, 0)\<close> and then \<open>np.maximum\<close>.
\<close>

fun streak_loop :: "bool ndarray \<Rightarrow> nat list \<Rightarrow> nat list \<Rightarrow> nat list \<Rightarrow> nat list" where
  "streak_loop flags [] max_streaks current_streak = max_streaks"
| "streak_loop flags (i # is) max_streaks current_streak =
     (let current_streak = map2 (\<lambda>f c. if f then c + 1 else 0) (column flags i) current_streak;
          max_streaks = map2 max max_streaks current_streak
      in streak_loop flags is max_streaks current_streak)"

definition calculate_max_consecutive_losing_trades :: "pyfloat ndarray \<Rightarrow> py_error + nat list" where
  "calculate_max_consecutive_losing_trades simulated_trades =
     (if ndim simulated_trades \<noteq> 2 then Inl (ValueError ''simulated_trades must be a 2D array.'')
      else
        (let losing = NDArray (shape simulated_trades) (map (\<lambda>x. flt x (Fin 0)) (flat simulated_trades));
             max_streaks = replicate (shape losing ! 0) 0;
             current_streak = replicate (shape losing ! 0) 0
         in Inr (streak_loop losing [0..<shape losing ! 1] max_streaks current_streak)))"

definition calculate_max_consecutive_winning_trades :: "pyfloat ndarray \<Rightarrow> py_error + nat list" where
  "calculate_max_consecutive_winning_trades simulated_trades =
     (if ndim simulated_trades \<noteq> 2 then Inl (ValueError ''simulated_trades must be a 2D array.'')
      else
        (let winning = NDArray (shape simulated_trades) (map (\<lambda>x. fgt x (Fin 0)) (flat simulated_trades));
             max_streaks = replicate (shape winning ! 0) 0;
             current_streak = replicate (shape winning ! 0) 0
         in Inr (streak_loop winning [0..<shape winning ! 1] max_streaks current_streak)))"

text \<open>
  The specification's wording of a streak: the longest run of values with a property is
  the greatest length of a contiguous block of the list all of whose elements have it
  (the empty block counts, so a list with no such value has run 0).
\<close>

definition longest_run :: "('a \<Rightarrow> bool) \<Rightarrow> 'a list \<Rightarrow> nat" where
  "longest_run P xs = Max (set (map length (filter (list_all P) (sublists xs))))"

text \<open>The shape the two scalar loops share, over any test \<open>P\<close>; used to compare them.\<close>

fun run_loop :: "('a \<Rightarrow> bool) \<Rightarrow> 'a list \<Rightarrow> nat \<Rightarrow> nat \<Rightarrow> nat" where
  "run_loop P [] mx cur = mx"
| "run_loop P (x # xs) mx cur =
     (if P x then run_loop P xs (max mx (cur + 1)) (cur + 1) else run_loop P xs mx 0)"

section \<open>Drawdown per path\<close>

text \<open>
  \<open>calculate_max_drawdown\<close> of \<open>monte_carlo.py\<close>. Its argument is any Python object:
  an array of balances, or something that is not a NumPy array. The balances are finite
  floats, read as real numbers.
\<close>

datatype py_arg = PyArray "real ndarray" | PyOther

text \<open>\<open>np.maximum.accumulate\<close> along one row: the running maximum.\<close>

fun accumulate_from :: "real \<Rightarrow> real list \<Rightarrow> real list" where
  "accumulate_from m [] = []"
| "accumulate_from m (x # xs) = max m x # accumulate_from (max m x) xs"

fun maximum_accumulate :: "real list \<Rightarrow> real list" where
  "maximum_accumulate [] = []"
| "maximum_accumulate (x # xs) = x # accumulate_from x xs"

text \<open>
  \<open>drawdowns.max(axis=1)\<close>: the maximum of every row. NumPy refuses to reduce along an
  axis of length zero, whatever the number of rows (the maximum has no identity).
\<close>

fun list_max :: "real list \<Rightarrow> real" where
  "list_max [] = 0"
| "list_max (x # xs) = fold max xs x"

definition max_axis1 :: "nat \<Rightarrow> real list list \<Rightarrow> py_error + real list" where
  "max_axis1 ncols rs =
     (if ncols = 0 then
        Inl (ValueError ''zero-size array to reduction operation maximum which has no identity'')
      else Inr (map list_max rs))"

text \<open>Lines 62 to 71 of the source, on the two-dimensional array.\<close>

definition max_drawdown_2d :: "real ndarray \<Rightarrow> bool \<Rightarrow> py_error + real list" where
  "max_drawdown_2d cumulative_profits as_percentage =
     (let roll_max = map maximum_accumulate (rows cumulative_profits);
          drawdowns = map2 (map2 (\<lambda>m x. m - x)) roll_max (rows cumulative_profits);
          drawdowns =
            (if as_percentage then
               (let safe_roll_max = map (map (\<lambda>m. if m = 0 then 1 else m)) roll_max
                in map2 (map2 (\<lambda>d s. (d / s) * 100)) drawdowns safe_roll_max)
             else drawdowns)
      in max_axis1 (shape cumulative_profits ! 1) drawdowns)"

definition calculate_max_drawdown :: "py_arg \<Rightarrow> bool \<Rightarrow> py_error + real list" where
  "calculate_max_drawdown cumulative_profits as_percentage =
     (case cumulative_profits of
        PyOther \<Rightarrow> Inl (TypeError ''cumulative_profits must be a NumPy array.'')
      | PyArray a \<Rightarrow>
          if ndim a = 1 then max_drawdown_2d (reshape_one_row a) as_percentage
          else if ndim a \<noteq> 2 then Inl (ValueError ''cumulative_profits must be a 1D or 2D array.'')
          else max_drawdown_2d a as_percentage)"

section \<open>pandas frames\<close>

text \<open>
  A frame is the list of its columns in order, each under its name. A column has one of
  the three types the ledgers use: floats (a missing number is \<open>NaN\<close>), text (a missing
  entry is \<open>None\<close>) and timestamps (a missing date, \<open>NaT\<close>, is \<open>None\<close>). All columns of a
  frame have the same length, and column names are distinct.
\<close>

datatype timestamp = Timestamp (ts_year: int) (ts_month: nat) (ts_day: nat) (ts_nanos: nat)

datatype column =
    FloatCol "pyfloat list"
  | TextCol "string option list"
  | TimeCol "timestamp option list"

datatype cell = FloatCell pyfloat | TextCell "string option" | TimeCell "timestamp option"

type_synonym dataframe = "(string \<times> column) list"

fun cells :: "column \<Rightarrow> cell list" where
  "cells (FloatCol xs) = map FloatCell xs"
| "cells (TextCol xs) = map TextCell xs"
| "cells (TimeCol xs) = map TimeCell xs"

fun col_length :: "column \<Rightarrow> nat" where
  "col_length (FloatCol xs) = length xs"
| "col_length (TextCol xs) = length xs"
| "col_length (TimeCol xs) = length xs"

definition columns :: "dataframe \<Rightarrow> string list" where
  "columns df = map fst df"

definition lookup :: "dataframe \<Rightarrow> string \<Rightarrow> column option" where
  "lookup df name = map_of df name"

definition nrows :: "dataframe \<Rightarrow> nat" where
  "nrows df = (case df of [] \<Rightarrow> 0 | (name, col) # rest \<Rightarrow> col_length col)"

text \<open>\<open>df[name] = col\<close>: an existing column is replaced in its place, a new one is appended.\<close>

fun set_column :: "dataframe \<Rightarrow> string \<Rightarrow> column \<Rightarrow> dataframe" where
  "set_column [] name col = [(name, col)]"
| "set_column ((n, c) # df) name col =
     (if n = name then (n, col) # df else (n, c) # set_column df name col)"

text \<open>\<open>df[[names]]\<close>: the named columns in the order asked for; a missing one is a \<open>KeyError\<close>.\<close>

fun select_columns :: "dataframe \<Rightarrow> string list \<Rightarrow> py_error + dataframe" where
  "select_columns df [] = Inr []"
| "select_columns df (n # ns) =
     (case lookup df n of
        None \<Rightarrow> Inl (KeyError n)
      | Some c \<Rightarrow>
          (case select_columns df ns of
             Inl e \<Rightarrow> Inl e
           | Inr r \<Rightarrow> Inr ((n, c) # r)))"

text \<open>\<open>df[sel]\<close>: the rows where the boolean series is true, column by column.\<close>

definition keep :: "bool list \<Rightarrow> 'a list \<Rightarrow> 'a list" where
  "keep sel xs = map snd (filter fst (zip sel xs))"

fun filter_column :: "bool list \<Rightarrow> column \<Rightarrow> column" where
  "filter_column sel (FloatCol xs) = FloatCol (keep sel xs)"
| "filter_column sel (TextCol xs) = TextCol (keep sel xs)"
| "filter_column sel (TimeCol xs) = TimeCol (keep sel xs)"

definition filter_rows :: "bool list \<Rightarrow> dataframe \<Rightarrow> dataframe" where
  "filter_rows sel df = map (\<lambda>(n, c). (n, filter_column sel c)) df"

text \<open>The rows at the given positions, column by column (positions are in range where used).\<close>

fun gather :: "nat list \<Rightarrow> column \<Rightarrow> column" where
  "gather idx (FloatCol xs) = FloatCol (map (\<lambda>i. xs ! i) idx)"
| "gather idx (TextCol xs) = TextCol (map (\<lambda>i. xs ! i) idx)"
| "gather idx (TimeCol xs) = TimeCol (map (\<lambda>i. xs ! i) idx)"

text \<open>The first error of a list of results, or all the values.\<close>

fun collect :: "('e + 'a) list \<Rightarrow> 'e + 'a list" where
  "collect [] = Inr []"
| "collect (x # xs) =
     (case x of
        Inl e \<Rightarrow> Inl e
      | Inr v \<Rightarrow> (case collect xs of Inl e \<Rightarrow> Inl e | Inr vs \<Rightarrow> Inr (v # vs)))"

text \<open>
  \<open>pd.to_datetime\<close>. A timestamp stays, a missing entry becomes \<open>NaT\<close>. How a string or a
  number is read as a date belongs to pandas: it is the parameter \<open>parse\<close>, which answers
  \<open>None\<close> for an entry that is not a date. Such an entry raises, or becomes \<open>NaT\<close> under
  \<open>errors='coerce'\<close>.
\<close>

fun to_datetime_cell :: "(cell \<Rightarrow> timestamp option) \<Rightarrow> bool \<Rightarrow> cell \<Rightarrow> py_error + timestamp option" where
  "to_datetime_cell parse coerce (TimeCell t) = Inr t"
| "to_datetime_cell parse coerce (TextCell None) = Inr None"
| "to_datetime_cell parse coerce (FloatCell NaN) = Inr None"
| "to_datetime_cell parse coerce c =
     (case parse c of
        Some t \<Rightarrow> Inr (Some t)
      | None \<Rightarrow> if coerce then Inr None else Inl (ValueError ''Unknown datetime string format''))"

definition to_datetime ::
  "(cell \<Rightarrow> timestamp option) \<Rightarrow> bool \<Rightarrow> column \<Rightarrow> py_error + timestamp option list" where
  "to_datetime parse coerce col = collect (map (to_datetime_cell parse coerce) (cells col))"

text \<open>\<open>df.rename(columns=mapping)\<close>: a column whose name is a key takes the new name.\<close>

definition rename_columns :: "(string \<times> string) list \<Rightarrow> dataframe \<Rightarrow> dataframe" where
  "rename_columns mapping df =
     map (\<lambda>(n, c). (case map_of mapping n of None \<Rightarrow> n | Some n' \<Rightarrow> n', c)) df"

text \<open>
  \<open>pd.merge(left, right, on=key, suffixes=(ls, rs))\<close>, the inner join: one row for every
  pair of a left row and a right row with equal keys, in the order of the left rows. The
  key column comes first, then the other columns of the left frame, then those of the
  right frame; a name that both sides have takes the suffix of its side.
\<close>

definition join_pairs :: "cell list \<Rightarrow> cell list \<Rightarrow> (nat \<times> nat) list" where
  "join_pairs ls rs =
     concat (map (\<lambda>i. map (\<lambda>j. (i, j)) (filter (\<lambda>j. rs ! j = ls ! i) [0..<length rs]))
               [0..<length ls])"

definition merge_on ::
  "string \<Rightarrow> string \<Rightarrow> string \<Rightarrow> dataframe \<Rightarrow> dataframe \<Rightarrow> py_error + dataframe" where
  "merge_on key lsuffix rsuffix left right =
     (case lookup left key of
        None \<Rightarrow> Inl (KeyError key)
      | Some lk \<Rightarrow>
          (case lookup right key of
             None \<Rightarrow> Inl (KeyError key)
           | Some rk \<Rightarrow>
               (let pairs = join_pairs (cells lk) (cells rk);
                    lrest = filter (\<lambda>(n, c). n \<noteq> key) left;
                    rrest = filter (\<lambda>(n, c). n \<noteq> key) right;
                    lname = (\<lambda>n. if n \<in> set (map fst rrest) then n @ lsuffix else n);
                    rname = (\<lambda>n. if n \<in> set (map fst lrest) then n @ rsuffix else n)
                in Inr ((key, gather (map fst pairs) lk)
                        # map (\<lambda>(n, c). (lname n, gather (map fst pairs) c)) lrest
                        @ map (\<lambda>(n, c). (rname n, gather (map snd pairs) c)) rrest))))"

text \<open>Strings: \<open>needle in s\<close>, and the lower case of ASCII letters.\<close>

fun contains :: "string \<Rightarrow> string \<Rightarrow> bool" where
  "contains needle [] = (needle = [])"
| "contains needle (c # cs) = (prefix needle (c # cs) \<or> contains needle cs)"

definition lower_char :: "char \<Rightarrow> char" where
  "lower_char c =
     (case map_of (zip ''ABCDEFGHIJKLMNOPQRSTUVWXYZ'' ''abcdefghijklmnopqrstuvwxyz'') c of
        None \<Rightarrow> c
      | Some l \<Rightarrow> l)"

definition lower :: "string \<Rightarrow> string" where
  "lower s = map lower_char s"

text \<open>
  One entry of \<open>series.str.contains(pat, case=False, na=False)\<close>: a missing entry does
  not match.
\<close>

definition str_contains :: "string \<Rightarrow> string option \<Rightarrow> bool" where
  "str_contains pat s = (case s of None \<Rightarrow> False | Some t \<Rightarrow> contains (lower pat) (lower t))"

section \<open>Monte Carlo simulation\<close>

text \<open>
  \<open>monte_carlo_simulation\<close> of \<open>monte_carlo.py\<close> draws from NumPy's global generator.
  The generator is a library, not code of the repository: it is a parameter, a record of
  the three functions the source calls, over a type \<open>'g\<close> of generator states.
  \<^item> \<open>np_seed s\<close> is the state that \<open>np.random.seed(s)\<close> installs, or the error it raises
    (a seed outside \<open>0 .. 2**32 - 1\<close>);
  \<^item> \<open>np_choice g pool m k\<close> is \<open>np.random.choice(pool, size=(m, k), replace=True)\<close> in
    state \<open>g\<close>: the matrix or the error, and the next state;
  \<^item> \<open>np_permutation g pool\<close> is \<open>np.random.permutation(pool)\<close> in state \<open>g\<close>, and the next
    state.
  The global state is threaded through the function: it takes the state before the call
  and returns the state after it.
\<close>

record 'g np_random =
  np_seed :: "int \<Rightarrow> py_error + 'g"
  np_choice :: "'g \<Rightarrow> pyfloat list \<Rightarrow> int \<Rightarrow> int \<Rightarrow> (py_error + pyfloat ndarray) \<times> 'g"
  np_permutation :: "'g \<Rightarrow> pyfloat list \<Rightarrow> pyfloat list \<times> 'g"

text \<open>
  The loop \<open>for i in range(num_simulations)\<close> of the shuffling method, by the number of
  iterations left: one permutation of the whole pool per path, cut to \<open>num_trades\<close>.
\<close>

fun shuffle_paths :: "'g np_random \<Rightarrow> pyfloat list \<Rightarrow> nat \<Rightarrow> nat \<Rightarrow> 'g \<Rightarrow> pyfloat list list \<times> 'g" where
  "shuffle_paths np profits num_trades 0 g = ([], g)"
| "shuffle_paths np profits num_trades (Suc n) g =
     (let (shuffled_profits, g) = np_permutation np g profits;
          (paths, g) = shuffle_paths np profits num_trades n g
      in (take num_trades shuffled_profits # paths, g))"

text \<open>
  The pool is the float column \<open>Profit\<close>. (A \<open>Profit\<close> column of another type is outside
  what the model resolves: it is reported as a type error.)
\<close>

definition monte_carlo_simulation ::
  "'g np_random \<Rightarrow> dataframe \<Rightarrow> int \<Rightarrow> int option \<Rightarrow> string \<Rightarrow> int option \<Rightarrow> 'g
     \<Rightarrow> (py_error + pyfloat ndarray) \<times> 'g" where
  "monte_carlo_simulation np trades num_simulations num_trades method seed g =
     (case lookup trades ''Profit'' of
        None \<Rightarrow> (Inl (KeyError ''The input DataFrame must contain a 'Profit' column.''), g)
      | Some (TextCol xs) \<Rightarrow> (Inl (TypeError ''Profit is not a float column''), g)
      | Some (TimeCol xs) \<Rightarrow> (Inl (TypeError ''Profit is not a float column''), g)
      | Some (FloatCol profits) \<Rightarrow>
          (let total_trades_available = int (length profits);
               num_trades = (case num_trades of None \<Rightarrow> total_trades_available | Some k \<Rightarrow> k)
           in
           if method \<noteq> ''random_choice'' \<and> method \<noteq> ''randomized_shuffling'' then
             (Inl (ValueError ''Unknown method''), g)
           else if method = ''randomized_shuffling'' \<and> num_trades > total_trades_available then
             (Inl (ValueError ''num_trades cannot exceed the total number of available trades''), g)
           else
             (case (case seed of None \<Rightarrow> Inr g | Some s \<Rightarrow> np_seed np s) of
                Inl e \<Rightarrow> (Inl e, g)
              | Inr g \<Rightarrow>
                  if method = ''random_choice'' then
                    np_choice np g profits num_simulations num_trades
                  else if num_simulations < 0 \<or> num_trades < 0 then
                    (Inl (ValueError ''negative dimensions are not allowed''), g)
                  else
                    (let (paths, g) = shuffle_paths np profits (nat num_trades) (nat num_simulations) g
                     in (Inr (NDArray [nat num_simulations, nat num_trades] (concat paths)), g)))))"

text \<open>
  A small generator, to run the simulation on examples: its state is a counter, a
  permutation rotates the pool by the counter, a choice reads the pool cyclically.
\<close>

definition toy_random :: "nat np_random" where
  "toy_random =
     \<lparr> np_seed = (\<lambda>s. if 0 \<le> s \<and> s < 2 ^ 32 then Inr (nat s)
                      else Inl (ValueError ''Seed must be between 0 and 2**32 - 1'')),
       np_choice = (\<lambda>g pool m k.
          if m < 0 \<or> k < 0 then (Inl (ValueError ''negative dimensions are not allowed''), g)
          else if pool = [] \<and> 0 < m * k then
            (Inl (ValueError ''a cannot be empty unless no samples are taken''), g)
          else (Inr (NDArray [nat m, nat k]
                  (map (\<lambda>i. pool ! ((g + i) mod length pool)) [0..<nat (m * k)])), g + nat (m * k))),
       np_permutation = (\<lambda>g pool. (rotate g pool, Suc g)) \<rparr>"

section \<open>The confidence-level summary table\<close>

text \<open>
  \<open>np.percentile\<close> of a one-dimensional array of finite values, with the default linear
  interpolation: the value at the virtual index \<open>(n - 1) * q / 100\<close> of the sorted data,
  interpolated between its two neighbours. Of no value at all it is \<open>NaN\<close>.
\<close>

definition percentile :: "real list \<Rightarrow> real \<Rightarrow> pyfloat" where
  "percentile xs q =
     (if xs = [] then NaN
      else
        (let s = sort xs;
             h = (real (length xs) - 1) * q / 100;
             lo = nat \<lfloor>h\<rfloor>;
             hi = min (lo + 1) (length xs - 1)
         in Fin (s ! lo + (s ! hi - s ! lo) * (h - real lo))))"

text \<open>
  \<open>display_monte_carlo_metrics\<close> of \<open>visualize.py\<close>. The table it shows holds formatted
  strings; a row of the model holds the numbers they are formatted from. The body of the
  loop is \<open>metrics_row\<close>: the drawdown vector is recomputed at every level, then
  \<open>cumulative_profits[:, -1]\<close> needs a second axis with a last column, and
  \<open>1 / len(cumulative_profits)\<close> is a division of Python integers, which raises on zero.
  \<open>len\<close> of an array is the length of its first axis.
\<close>

record mc_row =
  confidence_level :: real
  net_profit :: pyfloat
  r_expectancy :: pyfloat
  annual_return :: pyfloat
  max_drawdown :: pyfloat
  return_dd_ratio :: pyfloat

definition metrics_row :: "real ndarray \<Rightarrow> real \<Rightarrow> real \<Rightarrow> py_error + mc_row" where
  "metrics_row cumulative_profits initial_balance level =
     (case calculate_max_drawdown (PyArray cumulative_profits) False of
        Inl e \<Rightarrow> Inl e
      | Inr max_dd \<Rightarrow>
          if ndim cumulative_profits \<noteq> 2 then Inl (IndexError ''too many indices for array'')
          else if shape cumulative_profits ! 1 = 0 then
            Inl (IndexError ''index -1 is out of bounds for axis 1 with size 0'')
          else
            (let final = column cumulative_profits (shape cumulative_profits ! 1 - 1);
                 net_profit = percentile (map (\<lambda>x. x - initial_balance) final) level;
                 max_drawdown = percentile max_dd level;
                 return_dd_ratio =
                   (if fne max_drawdown (Fin 0) then fdiv net_profit max_drawdown else PInf);
                 r_expectancy = fdiv net_profit (Fin initial_balance)
             in
             if shape cumulative_profits ! 0 = 0 then Inl (ZeroDivisionError ''division by zero'')
             else
               (let annual_return =
                      fsub (fpow (fdiv (fadd net_profit (Fin initial_balance)) (Fin initial_balance))
                              (1 / real (shape cumulative_profits ! 0)))
                           (Fin 1)
                in Inr \<lparr> confidence_level = level, net_profit = net_profit,
                         r_expectancy = r_expectancy, annual_return = annual_return,
                         max_drawdown = max_drawdown, return_dd_ratio = return_dd_ratio \<rparr>)))"

definition confidence_levels :: "real list" where
  "confidence_levels = [50, 70, 80, 90, 95, 98, 100]"

definition display_monte_carlo_metrics :: "real ndarray \<Rightarrow> real \<Rightarrow> py_error + mc_row list" where
  "display_monte_carlo_metrics cumulative_profits initial_balance =
     collect (map (metrics_row cumulative_profits initial_balance) confidence_levels)"

text \<open>
  The design document's wording of the annualised return at a confidence level:
  \<open>(net_profit + initial_balance) / initial_balance\<close> to the power \<open>1 / num_days\<close>,
  minus one, where \<open>num_days\<close> is the number of days the paths span (the caller lays the
  columns of the matrix on consecutive days, one column per day).
\<close>

definition spec_annual_return :: "pyfloat \<Rightarrow> real \<Rightarrow> nat \<Rightarrow> pyfloat" where
  "spec_annual_return profit initial_balance num_days =
     fsub (fpow (fdiv (fadd profit (Fin initial_balance)) (Fin initial_balance))
             (1 / real num_days))
          (Fin 1)"

section \<open>The metrics engine\<close>

text \<open>
  \<open>calculate_buy_and_hold\<close> of \<open>metrics_calculation.py\<close>, as far as it decides whether
  the call returns: the conversion of the date column, \<open>iloc[0]\<close> on the sorted ledger,
  the column \<open>Entry Price\<close>, and the date range of a ledger none of whose dates is known.
  The curve it returns is a series of floats over the calendar and is not modelled.
\<close>

definition calculate_buy_and_hold ::
  "(cell \<Rightarrow> timestamp option) \<Rightarrow> dataframe \<Rightarrow> string \<Rightarrow> real \<Rightarrow> py_error + unit" where
  "calculate_buy_and_hold parse trades date_column initial_balance =
     (case lookup trades date_column of
        None \<Rightarrow> Inl (KeyError date_column)
      | Some dates \<Rightarrow>
          (case to_datetime parse False dates of
             Inl e \<Rightarrow> Inl e
           | Inr dates \<Rightarrow>
               (let trades = set_column trades date_column (TimeCol dates)
                in
                if nrows trades = 0 then
                  Inl (IndexError ''single positional indexer is out-of-bounds'')
                else
                  (case lookup trades ''Entry Price'' of
                     None \<Rightarrow> Inl (KeyError ''Entry Price'')
                   | Some (TextCol xs) \<Rightarrow> Inl (TypeError ''unsupported operand type(s) for -'')
                   | Some (TimeCol xs) \<Rightarrow> Inl (TypeError ''unsupported operand type(s) for /'')
                   | Some (FloatCol prices) \<Rightarrow>
                       if list_all (\<lambda>d. d = None) dates then
                         Inl (ValueError ''Neither start nor end can be NaT'')
                       else Inr ()))))"

text \<open>
  \<open>calculate_metrics\<close>. The function has no \<open>try\<close>: what is raised inside it reaches
  the caller. The report of the model holds the statistics of the trades themselves
  (lines 127 to 141 of the source), which do not depend on the order of the rows, so the
  sort by date is left out; the statistics of the daily equity curve (lines 143 to 193)
  are floats computed over the calendar and are not modelled. The date column is
  converted first, the column \<open>Net Profit\<close> is read next, and the benchmark, when asked
  for, is computed before the report is assembled.
\<close>

record metrics =
  number_of_trades :: nat
  win_rate :: pyfloat
  risk_reward :: pyfloat
  total_net_profit :: pyfloat
  total_net_profit_pct :: pyfloat

definition calculate_metrics ::
  "(cell \<Rightarrow> timestamp option) \<Rightarrow> dataframe \<Rightarrow> string \<Rightarrow> real \<Rightarrow> bool \<Rightarrow> py_error + metrics" where
  "calculate_metrics parse trades date_column initial_balance include_buy_and_hold =
     (case lookup trades date_column of
        None \<Rightarrow> Inl (KeyError date_column)
      | Some dates \<Rightarrow>
          (case to_datetime parse False dates of
             Inl e \<Rightarrow> Inl e
           | Inr dates \<Rightarrow>
               (let trades = set_column trades date_column (TimeCol dates)
                in
                case lookup trades ''Net Profit'' of
                  None \<Rightarrow> Inl (KeyError ''Net Profit'')
                | Some (TextCol xs) \<Rightarrow> Inl (TypeError ''> not supported between str and int'')
                | Some (TimeCol xs) \<Rightarrow> Inl (TypeError ''datetime64 type does not support sum'')
                | Some (FloatCol net) \<Rightarrow>
                    (let total_profit = series_sum net;
                         trade_count = nrows trades;
                         winning_trades = length (filter (\<lambda>x. fgt x (Fin 0)) net);
                         winning_percentage =
                           (if trade_count > 0
                            then Fin ((real winning_trades / real trade_count) * 100)
                            else Fin 0);
                         average_win = py_or (series_mean (filter (\<lambda>x. fgt x (Fin 0)) net)) (Fin 0);
                         average_loss = py_or (series_mean (filter (\<lambda>x. flt x (Fin 0)) net)) (Fin 0);
                         risk_reward_ratio =
                           (if fne average_win (Fin 0) then fdiv (fabs average_loss) average_win
                            else PInf);
                         profit_pct =
                           (if initial_balance \<noteq> 0
                            then fmul (fdiv total_profit (Fin initial_balance)) (Fin 100)
                            else Fin 0)
                     in
                     case (if include_buy_and_hold
                           then calculate_buy_and_hold parse trades date_column initial_balance
                           else Inr ()) of
                       Inl e \<Rightarrow> Inl e
                     | Inr u \<Rightarrow>
                         Inr \<lparr> number_of_trades = trade_count,
                               win_rate = winning_percentage,
                               risk_reward = risk_reward_ratio,
                               total_net_profit = total_profit,
                               total_net_profit_pct = profit_pct \<rparr>))))"

section \<open>The monthly table and the frame it is given\<close>

text \<open>
  \<open>monthly_performance_table\<close> of \<open>visualize.py\<close> returns nothing: it shows a table.
  Before it groups the profits it assigns four columns of the frame it was given (lines
  93 to 98). The model is that effect: the caller's frame as the call leaves it, whether
  the later lines raise or not. When the date column is missing or does not convert, the
  first assignment raises and the frame is as it was.
\<close>

definition month_names :: "string list" where
  "month_names =
     [''January'', ''February'', ''March'', ''April'', ''May'', ''June'',
      ''July'', ''August'', ''September'', ''October'', ''November'', ''December'']"

text \<open>Python's \<open>str\<close> of an integer: the decimal digits, most significant first.\<close>

definition digit_char :: "nat \<Rightarrow> char" where
  "digit_char d = ''0123456789'' ! d"

fun decimal_digits :: "nat \<Rightarrow> string \<Rightarrow> string" where
  "decimal_digits n acc =
     (if n div 10 = 0 then digit_char n # acc
      else decimal_digits (n div 10) (digit_char (n mod 10) # acc))"

declare decimal_digits.simps [simp del]

definition py_str_int :: "int \<Rightarrow> string" where
  "py_str_int i =
     (if 0 \<le> i then decimal_digits (nat i) [] else CHR ''-'' # decimal_digits (nat (- i)) [])"

text \<open>
  \<open>series.dt.year.astype(str)\<close>: the years are integers, unless a date is missing, in
  which case pandas holds them as floats and a missing one prints as \<open>nan\<close>.
\<close>

definition year_strings :: "timestamp option list \<Rightarrow> string option list" where
  "year_strings dates =
     (if list_all (\<lambda>d. d \<noteq> None) dates then
        map (\<lambda>d. case d of None \<Rightarrow> Some ''nan'' | Some t \<Rightarrow> Some (py_str_int (ts_year t))) dates
      else
        map (\<lambda>d. case d of None \<Rightarrow> Some ''nan''
                  | Some t \<Rightarrow> Some (py_str_int (ts_year t) @ ''.0'')) dates)"

definition month_name_of :: "timestamp option \<Rightarrow> string option" where
  "month_name_of d = (case d of None \<Rightarrow> None | Some t \<Rightarrow> Some (month_names ! (ts_month t - 1)))"

definition month_number_of :: "timestamp option \<Rightarrow> pyfloat" where
  "month_number_of d = (case d of None \<Rightarrow> NaN | Some t \<Rightarrow> Fin (real (ts_month t)))"

definition monthly_performance_table_frame ::
  "(cell \<Rightarrow> timestamp option) \<Rightarrow> dataframe \<Rightarrow> string \<Rightarrow> dataframe" where
  "monthly_performance_table_frame parse trades date_column =
     (case lookup trades date_column of
        None \<Rightarrow> trades
      | Some dates \<Rightarrow>
          (case to_datetime parse False dates of
             Inl e \<Rightarrow> trades
           | Inr dates \<Rightarrow>
               (let trades = set_column trades date_column (TimeCol dates);
                    trades = set_column trades ''Year'' (TextCol (year_strings dates))
                in
                if date_column = ''Year'' then trades
                else
                  (let trades = set_column trades ''Month'' (TextCol (map month_name_of dates))
                   in
                   if date_column = ''Month'' then trades
                   else set_column trades ''Month_Num'' (FloatCol (map month_number_of dates))))))"

section \<open>The ledger normaliser\<close>

text \<open>
  \<open>format_trade_data\<close> of \<open>data_processing.py\<close>. The function assigns to columns of
  its argument, so the model returns the caller's frame as the call leaves it, next to
  the result. \<open>pair_trades\<close> is the pairing of entries and exits (lines 54 to 59) and
  \<open>format_pairs\<close> what is made of the pairs (lines 61 to 79: the column \<open>Type\<close>, the
  new names, the commission, the net profit, the columns kept); both work on frames of
  their own. \<open>format_trade_data_body\<close> is the body of the \<open>try\<close>; the function itself
  turns every exception of the body into \<open>None\<close>. (The decorator \<open>st.cache_data\<close> only
  skips a repeated call; the model is a call that runs.)
\<close>

definition final_format_cols :: "string list" where
  "final_format_cols =
     [''Trade #'', ''Type'', ''lots'', ''Entry Date'', ''Exit Date'',
      ''Entry Price'', ''Exit Price'', ''Profit'', ''Total Commission'', ''Net Profit'']"

definition required_columns :: "string list" where
  "required_columns = [''Type'', ''Trade #'', ''Date/Time'', ''Contracts'']"

definition format_pairs :: "dataframe \<Rightarrow> string option \<Rightarrow> string \<Rightarrow> string \<Rightarrow> py_error + dataframe" where
  "format_pairs paired_trades first_type price_column profit_column =
     (let paired_trades =
            set_column paired_trades ''Type''
              (TextCol (replicate (nrows paired_trades) first_type));
          formatted_trades =
            rename_columns
              [(''Date/Time_Entry'', ''Entry Date''),
               (''Date/Time_Exit'', ''Exit Date''),
               (price_column @ ''_Entry'', ''Entry Price''),
               (price_column @ ''_Exit'', ''Exit Price''),
               (''Contracts_Entry'', ''Contracts''),
               (profit_column, ''Profit''),
               (''Commission_Entry'', ''Commission'')]
              paired_trades
      in
      case lookup formatted_trades ''Commission'' of
        None \<Rightarrow> Inl (KeyError ''Commission'')
      | Some commission \<Rightarrow>
          (let formatted_trades = set_column formatted_trades ''Total Commission'' commission
           in
           case lookup formatted_trades ''Profit'' of
             None \<Rightarrow> Inl (KeyError ''Profit'')
           | Some (TextCol xs) \<Rightarrow> Inl (TypeError ''unsupported operand type(s) for -'')
           | Some (TimeCol xs) \<Rightarrow> Inl (TypeError ''unsupported operand type(s) for -'')
           | Some (FloatCol profit) \<Rightarrow>
               (case commission of
                  TextCol xs \<Rightarrow> Inl (TypeError ''unsupported operand type(s) for -'')
                | TimeCol xs \<Rightarrow> Inl (TypeError ''unsupported operand type(s) for -'')
                | FloatCol total_commission \<Rightarrow>
                    select_columns
                      (set_column formatted_trades ''Net Profit''
                         (FloatCol (map2 fsub profit total_commission)))
                      [''Trade #'', ''Type'', ''Contracts'', ''Entry Date'',
                       ''Exit Date'', ''Entry Price'', ''Exit Price'', ''Profit'',
                       ''Total Commission'', ''Net Profit''])))"

definition pair_trades :: "dataframe \<Rightarrow> string \<Rightarrow> string \<Rightarrow> string \<Rightarrow> py_error + dataframe" where
  "pair_trades trade_data price_column profit_column input_filename =
     (case lookup trade_data ''Type'' of
        None \<Rightarrow> Inl (KeyError ''Type'')
      | Some (FloatCol xs) \<Rightarrow> Inl (AttributeError ''Can only use .str accessor with string values'')
      | Some (TimeCol xs) \<Rightarrow> Inl (AttributeError ''Can only use .str accessor with string values'')
      | Some (TextCol types) \<Rightarrow>
          (let entries = filter_rows (map (str_contains ''Entry'') types) trade_data;
               exits = filter_rows (map (str_contains ''Exit'') types) trade_data
           in
           if nrows entries = 0 \<or> nrows exits = 0 then
             Inl (ValueError (''File '' @ input_filename
                    @ '' must contain both 'Entry' and 'Exit' trades, or be in final format.''))
           else
             (case select_columns entries
                     [''Trade #'', ''Date/Time'', price_column, ''Contracts'', ''Commission''] of
                Inl e \<Rightarrow> Inl e
              | Inr left \<Rightarrow>
             (case select_columns exits
                     [''Trade #'', ''Date/Time'', price_column, profit_column, ''Contracts''] of
                Inl e \<Rightarrow> Inl e
              | Inr right \<Rightarrow>
             (case merge_on ''Trade #'' ''_Entry'' ''_Exit'' left right of
                Inl e \<Rightarrow> Inl e
              | Inr paired_trades \<Rightarrow>
                  format_pairs paired_trades
                    (case keep (map (str_contains ''Entry'') types) types of
                       [] \<Rightarrow> Some ''N/A''
                     | t # ts \<Rightarrow> t)
                    price_column profit_column)))))"

definition format_trade_data_body ::
  "(cell \<Rightarrow> timestamp option) \<Rightarrow> dataframe \<Rightarrow> string \<Rightarrow> dataframe \<times> (py_error + dataframe)" where
  "format_trade_data_body parse trade_data input_filename =
     (if list_all (\<lambda>col. col \<in> set (columns trade_data)) final_format_cols then
        (case lookup trade_data ''Entry Date'' of
           None \<Rightarrow> (trade_data, Inl (KeyError ''Entry Date''))
         | Some entry_dates \<Rightarrow>
        (case to_datetime parse True entry_dates of
           Inl e \<Rightarrow> (trade_data, Inl e)
         | Inr entry_dates \<Rightarrow>
        (let trade_data = set_column trade_data ''Entry Date'' (TimeCol entry_dates)
         in
         case lookup trade_data ''Exit Date'' of
           None \<Rightarrow> (trade_data, Inl (KeyError ''Exit Date''))
         | Some exit_dates \<Rightarrow>
        (case to_datetime parse True exit_dates of
           Inl e \<Rightarrow> (trade_data, Inl e)
         | Inr exit_dates \<Rightarrow>
        (let trade_data = set_column trade_data ''Exit Date'' (TimeCol exit_dates)
         in (trade_data, select_columns trade_data final_format_cols))))))
      else
        (case find (\<lambda>col. col \<notin> set (columns trade_data)) required_columns of
           Some missing \<Rightarrow>
             (trade_data,
              Inl (ValueError (''Column '' @ missing @ '' not found in file: '' @ input_filename)))
         | None \<Rightarrow>
        (case find (\<lambda>col. prefix ''Price'' col) (columns trade_data) of
           None \<Rightarrow>
             (trade_data, Inl (ValueError (''No 'Price' column found in file: '' @ input_filename)))
         | Some price_column \<Rightarrow>
        (case find (\<lambda>col. contains ''Profit'' col) (columns trade_data) of
           None \<Rightarrow>
             (trade_data,
              Inl (ValueError (''Unable to detect correct 'Profit' column in file: ''
                     @ input_filename)))
         | Some profit_column \<Rightarrow>
        (case lookup trade_data ''Contracts'' of
           None \<Rightarrow> (trade_data, Inl (KeyError ''Contracts''))
         | Some (TextCol xs) \<Rightarrow> (trade_data, Inl (TypeError ''unsupported operand type(s) for /''))
         | Some (TimeCol xs) \<Rightarrow> (trade_data, Inl (TypeError ''unsupported operand type(s) for /''))
         | Some (FloatCol contracts) \<Rightarrow>
             (let lots = map (\<lambda>x. fdiv x (Fin 100000)) contracts;
                  trade_data = set_column trade_data ''Lots'' (FloatCol lots);
                  trade_data =
                    set_column trade_data ''Commission'' (FloatCol (map (\<lambda>x. fmul x (Fin 4)) lots))
              in (trade_data, pair_trades trade_data price_column profit_column input_filename)))))))"

definition format_trade_data ::
  "(cell \<Rightarrow> timestamp option) \<Rightarrow> dataframe \<Rightarrow> string \<Rightarrow> dataframe \<times> dataframe option" where
  "format_trade_data parse trade_data input_filename =
     (case format_trade_data_body parse trade_data input_filename of
        (trade_data, Inl e) \<Rightarrow> (trade_data, None)
      | (trade_data, Inr formatted_trades) \<Rightarrow> (trade_data, Some formatted_trades))"

section \<open>Example inputs\<close>

text \<open>A ledger of three trades, as far as the simulation reads it.\<close>

definition example_ledger :: dataframe where
  "example_ledger =
     [(''Trade #'', FloatCol [Fin 1, Fin 2, Fin 3]),
      (''Profit'', FloatCol [Fin 10, Fin (- 5), Fin 20])]"

text \<open>
  Two simulated paths over one day each, both ending at 40000 from an initial balance of
  10000: a matrix of two rows and one column.
\<close>

definition two_paths_one_day :: "real ndarray" where
  "two_paths_one_day = NDArray [2, 1] [40000, 40000]"

text \<open>A parser of dates that knows no string and no number: only timestamps are dates.\<close>

definition no_parse :: "cell \<Rightarrow> timestamp option" where
  "no_parse c = None"

text \<open>
  A raw export of two round trips: trade 1 is entered long and closed, trade 2 is entered
  short and closed.
\<close>

definition raw_export :: dataframe where
  "raw_export =
     [(''Trade #'', FloatCol [Fin 1, Fin 1, Fin 2, Fin 2]),
      (''Type'', TextCol [Some ''Entry Long'', Some ''Exit Long'',
                          Some ''Entry Short'', Some ''Exit Short'']),
      (''Date/Time'', TimeCol [Some (Timestamp 2024 3 1 0), Some (Timestamp 2024 3 2 0),
                               Some (Timestamp 2024 11 5 0), Some (Timestamp 2024 11 6 0)]),
      (''Price USD'', FloatCol [Fin 100, Fin 110, Fin 120, Fin 115]),
      (''Contracts'', FloatCol [Fin 100000, Fin 100000, Fin 200000, Fin 200000]),
      (''Profit USD'', FloatCol [NaN, Fin 10, NaN, Fin 5])]"

text \<open>Canonical ledgers: one losing trade; no trade at all; one without net profits.\<close>

definition one_loss :: dataframe where
  "one_loss =
     [(''Entry Date'', TimeCol [Some (Timestamp 2024 3 1 0)]),
      (''Entry Price'', FloatCol [Fin 100]),
      (''Net Profit'', FloatCol [Fin (- 50)])]"

definition empty_ledger :: dataframe where
  "empty_ledger =
     [(''Entry Date'', TimeCol []),
      (''Entry Price'', FloatCol []),
      (''Net Profit'', FloatCol [])]"


text \<open>The raw export after normalisation: the caller's frame, and the ledger returned.\<close>

definition raw_export_after :: dataframe where
  "raw_export_after =
     raw_export @
     [(''Lots'', FloatCol [Fin 1, Fin 1, Fin 2, Fin 2]),
      (''Commission'', FloatCol [Fin 4, Fin 4, Fin 8, Fin 8])]"

definition raw_export_normalised :: dataframe where
  "raw_export_normalised =
     [(''Trade #'', FloatCol [Fin 1, Fin 2]),
      (''Type'', TextCol [Some ''Entry Long'', Some ''Entry Long'']),
      (''Contracts'', FloatCol [Fin 100000, Fin 200000]),
      (''Entry Date'', TimeCol [Some (Timestamp 2024 3 1 0), Some (Timestamp 2024 11 5 0)]),
      (''Exit Date'', TimeCol [Some (Timestamp 2024 3 2 0), Some (Timestamp 2024 11 6 0)]),
      (''Entry Price'', FloatCol [Fin 100, Fin 120]),
      (''Exit Price'', FloatCol [Fin 110, Fin 115]),
      (''Profit'', FloatCol [Fin 10, Fin 5]),
      (''Total Commission'', FloatCol [Fin 4, Fin 8]),
      (''Net Profit'', FloatCol [Fin 6, Fin (- 3)])]"

text \<open>The ledger of one losing trade after the monthly table was shown.\<close>

definition one_loss_after :: dataframe where
  "one_loss_after =
     one_loss @
     [(''Year'', TextCol [Some ''2024'']),
      (''Month'', TextCol [Some ''March'']),
      (''Month_Num'', FloatCol [Fin 3])]"


section \<open>Proofs: streaks\<close>

text \<open>
  Both scalar loops are instances of \<open>run_loop\<close>. Entry \<open>r\<close> of the vectors of the
  vectorised loop evolves as the two counters of the scalar loop do on row \<open>r\<close>, and the
  scalar loop computes the longest run.
\<close>

lemma losses_loop_run: "losses_loop ps mx cur = run_loop (\<lambda>x. flt x (Fin 0)) ps mx cur"
  by (induction ps arbitrary: mx cur) (auto simp: Let_def max_def)

lemma wins_loop_run: "wins_loop ps mx cur = run_loop (\<lambda>x. fgt x (Fin 0)) ps mx cur"
  by (induction ps arbitrary: mx cur) (auto simp: Let_def max_def)

lemma streak_loop_length:
  "length mx = n \<Longrightarrow> length cur = n \<Longrightarrow> shape flags ! 0 = n \<Longrightarrow>
   length (streak_loop flags is mx cur) = n"
  by (induction "is" arbitrary: mx cur) (auto simp: Let_def column_def)

lemma streak_loop_nth:
  assumes "length mx = n" "length cur = n" "shape flags ! 0 = n" "r < n"
  shows "streak_loop flags is mx cur ! r =
         run_loop (\<lambda>b. b) (map (\<lambda>i. flat flags ! (r * (shape flags ! 1) + i)) is) (mx ! r) (cur ! r)"
  using assms
proof (induction "is" arbitrary: mx cur)
  case Nil
  then show ?case by simp
next
  case (Cons i "is")
  let ?cur = "map2 (\<lambda>f c. if f then c + 1 else 0) (column flags i) cur"
  let ?mx = "map2 max mx ?cur"
  have lc: "length ?cur = n" using Cons.prems by (simp add: column_def)
  have lm: "length ?mx = n" using Cons.prems lc by simp
  have c: "?cur ! r = (if flat flags ! (r * (shape flags ! 1) + i) then cur ! r + 1 else 0)"
    using Cons.prems by (simp add: column_def)
  have m: "?mx ! r = max (mx ! r) (?cur ! r)"
    using Cons.prems lc by simp
  have "streak_loop flags (i # is) mx cur ! r = streak_loop flags is ?mx ?cur ! r"
    by (simp add: Let_def)
  also have "\<dots> = run_loop (\<lambda>b. b) (map (\<lambda>i. flat flags ! (r * (shape flags ! 1) + i)) is) (?mx ! r) (?cur ! r)"
    using Cons.IH[OF lm lc Cons.prems(3) Cons.prems(4)] .
  finally show ?case
    unfolding m c by (cases "flat flags ! (r * (shape flags ! 1) + i)") simp_all
qed

lemma run_loop_map: "run_loop P (map f xs) mx cur = run_loop (P \<circ> f) xs mx cur"
  by (induction xs arbitrary: mx cur) auto

lemma row_eq_map:
  assumes "length xs = n * c" "r < n"
  shows "take c (drop (r * c) xs) = map (\<lambda>i. xs ! (r * c + i)) [0..<c]"
proof -
  have "r * c + c \<le> n * c"
  proof -
    have "Suc r \<le> n" using assms(2) by simp
    then have "Suc r * c \<le> n * c" by (rule mult_le_mono1)
    then show ?thesis by simp
  qed
  then have len: "length (take c (drop (r * c) xs)) = c"
    using assms(1) by simp
  show ?thesis
    by (rule nth_equalityI) (use len assms in \<open>auto simp: nth_append\<close>)
qed


lemma flags_row:
  assumes "length xs = n * c" "r < n"
  shows "map (\<lambda>i. map P xs ! (r * c + i)) [0..<c] = map P (take c (drop (r * c) xs))"
proof -
  have "r * c + c \<le> n * c"
  proof -
    have "Suc r \<le> n" using assms(2) by simp
    then have "Suc r * c \<le> n * c" by (rule mult_le_mono1)
    then show ?thesis by simp
  qed
  then have "\<And>i. i < c \<Longrightarrow> r * c + i < length xs" using assms(1) by simp
  then have "map (\<lambda>i. map P xs ! (r * c + i)) [0..<c] = map (\<lambda>i. P (xs ! (r * c + i))) [0..<c]"
    by simp
  also have "\<dots> = map P (map (\<lambda>i. xs ! (r * c + i)) [0..<c])" by (simp add: comp_def)
  also have "\<dots> = map P (take c (drop (r * c) xs))"
    using row_eq_map[OF assms] by simp
  finally show ?thesis .
qed

lemma vector_streaks_rows:
  assumes "length xs = n * c"
  shows "streak_loop (NDArray [n, c] (map P xs)) [0..<c] (replicate n 0) (replicate n 0)
         = map (\<lambda>r. run_loop P (take c (drop (r * c) xs)) 0 0) [0..<n]"
proof (rule nth_equalityI)
  show "length (streak_loop (NDArray [n, c] (map P xs)) [0..<c] (replicate n 0) (replicate n 0))
        = length (map (\<lambda>r. run_loop P (take c (drop (r * c) xs)) 0 0) [0..<n])"
    by (simp add: streak_loop_length)
next
  fix r
  assume "r < length (streak_loop (NDArray [n, c] (map P xs)) [0..<c] (replicate n 0) (replicate n 0))"
  then have r: "r < n" by (simp add: streak_loop_length)
  have "streak_loop (NDArray [n, c] (map P xs)) [0..<c] (replicate n 0) (replicate n 0) ! r
        = run_loop (\<lambda>b. b) (map (\<lambda>i. map P xs ! (r * c + i)) [0..<c]) 0 0"
    using streak_loop_nth[of "replicate n 0" n "replicate n 0" "NDArray [n, c] (map P xs)" r "[0..<c]"] r
    by simp
  also have "\<dots> = run_loop (\<lambda>b. b) (map P (take c (drop (r * c) xs))) 0 0"
    by (simp only: flags_row[OF assms r, of P])
  also have "\<dots> = run_loop P (take c (drop (r * c) xs)) 0 0"
    by (simp add: run_loop_map comp_def)
  finally show "streak_loop (NDArray [n, c] (map P xs)) [0..<c] (replicate n 0) (replicate n 0) ! r
        = map (\<lambda>r. run_loop P (take c (drop (r * c) xs)) 0 0) [0..<n] ! r"
    using r by simp
qed

lemma prefix_all_takeWhile:
  "prefix p xs \<Longrightarrow> list_all P p \<Longrightarrow> length p \<le> length (takeWhile P xs)"
proof (induction p arbitrary: xs)
  case Nil
  then show ?case by simp
next
  case (Cons a p)
  show ?case
  proof (cases xs)
    case Nil
    with Cons.prems show ?thesis by simp
  next
    case (Cons b ys)
    with Cons.prems have "b = a" "prefix p ys" "P a" "list_all P p" by auto
    with Cons.IH[of ys] Cons show ?thesis by simp
  qed
qed

lemma Max_prefix_run:
  "Max (set (map length (filter (list_all P) (prefixes xs)))) = length (takeWhile P xs)"
proof (rule Max_eqI)
  show "finite (set (map length (filter (list_all P) (prefixes xs))))" by (rule finite_set)
next
  fix y assume "y \<in> set (map length (filter (list_all P) (prefixes xs)))"
  then obtain p where "prefix p xs" "list_all P p" "y = length p"
    by (auto simp: in_set_prefixes)
  then show "y \<le> length (takeWhile P xs)" using prefix_all_takeWhile by blast
next
  have "prefix (takeWhile P xs) xs" by (rule takeWhile_is_prefix)
  moreover have "list_all P (takeWhile P xs)"
    by (simp add: list_all_iff) (meson set_takeWhileD)
  ultimately show "length (takeWhile P xs) \<in> set (map length (filter (list_all P) (prefixes xs)))"
    by (force simp: in_set_prefixes)
qed

lemma longest_run_Nil: "longest_run P [] = 0"
  by (simp add: longest_run_def)

lemma longest_run_Cons:
  fixes xs :: "'a list"
  shows "longest_run P (x # xs) =
     max (longest_run P xs) (if P x then 1 + length (takeWhile P xs) else 0)"
proof -
  define A where "A = set (map length (filter (list_all P) (sublists xs)))"
  define S where "S = set (map length (filter (list_all P) (prefixes xs)))"
  define B where "B = set (map length (filter (list_all P) (map ((#) x) (prefixes xs))))"
  have finA: "finite A" unfolding A_def by (rule finite_set)
  have finS: "finite S" unfolding S_def by (rule finite_set)
  have "[] \<in> set (filter (list_all P) (sublists xs))" by simp
  then have "length ([] :: 'a list) \<in> A" unfolding A_def set_map by (rule imageI)
  then have neA: "A \<noteq> {}" by blast
  have "[] \<in> set (filter (list_all P) (prefixes xs))" by simp
  then have "length ([] :: 'a list) \<in> S" unfolding S_def set_map by (rule imageI)
  then have neS: "S \<noteq> {}" by blast
  have MS: "Max S = length (takeWhile P xs)" unfolding S_def by (rule Max_prefix_run)
  have LA: "longest_run P xs = Max A" by (simp only: longest_run_def A_def)
  have "sublists (x # xs) = sublists xs @ map ((#) x) (prefixes xs)" by simp
  then have LAB: "longest_run P (x # xs) = Max (A \<union> B)"
    by (simp only: longest_run_def A_def B_def filter_append map_append set_append)
  show ?thesis
  proof (cases "P x")
    case False
    then have "filter (list_all P) (map ((#) x) (prefixes xs)) = []"
      by (simp add: filter_empty_conv)
    then have "B = {}" unfolding B_def by simp
    then show ?thesis using False LA LAB neA finA by simp
  next
    case True
    have "filter (list_all P) (map ((#) x) (prefixes xs))
          = map ((#) x) (filter (list_all P) (prefixes xs))"
      using True by (simp add: filter_map comp_def)
    then have "B = (\<lambda>p. Suc (length p)) ` set (filter (list_all P) (prefixes xs))"
      unfolding B_def by (simp add: image_image)
    also have "\<dots> = Suc ` S" unfolding S_def set_map by (simp only: image_image)
    finally have B: "B = Suc ` S" .
    have "mono Suc" by (simp add: mono_def)
    then have "Suc (Max S) = Max (Suc ` S)" using finS neS by (rule mono_Max_commute)
    then have MB: "Max B = Suc (length (takeWhile P xs))" using B MS by simp
    have "B \<noteq> {}" "finite B" using B neS finS by simp_all
    then have "Max (A \<union> B) = max (Max A) (Max B)"
      using finA neA by (simp add: Max_Un)
    then show ?thesis using True LA LAB MB by simp
  qed
qed

lemma takeWhile_le_longest_run: "length (takeWhile P xs) \<le> longest_run P xs"
  by (cases xs) (auto simp: longest_run_Nil longest_run_Cons)

lemma run_loop_longest_run:
  "cur \<le> mx \<Longrightarrow>
   run_loop P xs mx cur = max mx (max (longest_run P xs) (cur + length (takeWhile P xs)))"
proof (induction xs arbitrary: mx cur)
  case Nil
  then show ?case by (simp add: longest_run_Nil)
next
  case (Cons x xs)
  show ?case
  proof (cases "P x")
    case True
    have "run_loop P (x # xs) mx cur = run_loop P xs (max mx (cur + 1)) (cur + 1)"
      using True by simp
    also have "\<dots> = max (max mx (cur + 1))
        (max (longest_run P xs) (cur + 1 + length (takeWhile P xs)))"
      by (rule Cons.IH) simp
    finally show ?thesis using True by (simp add: longest_run_Cons max_def)
  next
    case False
    have "run_loop P (x # xs) mx cur = run_loop P xs mx 0" using False by simp
    also have "\<dots> = max mx (max (longest_run P xs) (0 + length (takeWhile P xs)))"
      by (rule Cons.IH) simp
    finally show ?thesis
      using False Cons.prems takeWhile_le_longest_run[of P xs]
      by (simp add: longest_run_Cons)
  qed
qed

lemma run_loop_is_longest_run: "run_loop P xs 0 0 = longest_run P xs"
  using run_loop_longest_run[of 0 0 P xs] takeWhile_le_longest_run[of P xs] by simp

text \<open>
  Claim C8. For every two-dimensional matrix of per-trade profits (\<open>n\<close> paths of \<open>c\<close>
  trades, entries of any float value), \<open>calculate_max_consecutive_losing_trades\<close> returns
  the vector whose entry \<open>i\<close> is \<open>max_consecutive_losses\<close> of row \<open>i\<close>, and
  \<open>calculate_max_consecutive_winning_trades\<close> the one of \<open>max_consecutive_wins\<close>; these
  are the longest runs of strictly negative (strictly positive) values of the row, so a
  zero ends a streak of either kind.
\<close>

theorem vectorized_streaks_agree:
  assumes "wf_array a" and "shape a = [n, c]"
  shows "calculate_max_consecutive_losing_trades a
           = Inr (map (\<lambda>i. max_consecutive_losses (row a i)) [0..<n])
       \<and> calculate_max_consecutive_winning_trades a
           = Inr (map (\<lambda>i. max_consecutive_wins (row a i)) [0..<n])
       \<and> map (\<lambda>i. max_consecutive_losses (row a i)) [0..<n]
           = map (\<lambda>i. longest_run (\<lambda>x. flt x (Fin 0)) (row a i)) [0..<n]
       \<and> map (\<lambda>i. max_consecutive_wins (row a i)) [0..<n]
           = map (\<lambda>i. longest_run (\<lambda>x. fgt x (Fin 0)) (row a i)) [0..<n]"
proof -
  obtain xs where a: "a = NDArray [n, c] xs" using assms(2) by (cases a) simp
  have len: "length xs = n * c" using assms(1) a by (simp add: wf_array_def)
  have l: "calculate_max_consecutive_losing_trades a
           = Inr (map (\<lambda>i. max_consecutive_losses (row a i)) [0..<n])"
    unfolding a calculate_max_consecutive_losing_trades_def
    by (simp add: ndim_def Let_def vector_streaks_rows[OF len] row_def
          max_consecutive_losses_def losses_loop_run)
  have w: "calculate_max_consecutive_winning_trades a
           = Inr (map (\<lambda>i. max_consecutive_wins (row a i)) [0..<n])"
    unfolding a calculate_max_consecutive_winning_trades_def
    by (simp add: ndim_def Let_def vector_streaks_rows[OF len] row_def
          max_consecutive_wins_def wins_loop_run)
  show ?thesis
    using l w
    by (simp add: max_consecutive_losses_def max_consecutive_wins_def losses_loop_run
          wins_loop_run run_loop_is_longest_run)
qed

theorem vectorized_streaks_agree_witness:
  "calculate_max_consecutive_losing_trades (NDArray [2, 3] (map Fin [1, -1, -1, -2, 0, -3]))
     = Inr [2, 1]
   \<and> calculate_max_consecutive_winning_trades (NDArray [2, 3] (map Fin [1, -1, -1, -2, 0, -3]))
     = Inr [1, 0]"
proof -
  let ?a = "NDArray [2, 3] (map Fin [1, -1, -1, -2, 0, -3])"
  have wf: "wf_array ?a" by (simp add: wf_array_def)
  have sh: "shape ?a = [2, 3]" by simp
  have rows: "[0..<2] = [0, Suc 0]" by (simp add: upt_rec)
  show ?thesis
    using vectorized_streaks_agree[OF wf sh]
    by (simp add: rows row_def max_consecutive_losses_def max_consecutive_wins_def fgt_def)
qed

section \<open>Proofs: drawdown of a one-dimensional array\<close>

lemma max_drawdown_one_row:
  "0 < length xs \<Longrightarrow> \<exists>v. max_drawdown_2d (NDArray [1, length xs] xs) p = Inr [v]"
  by (simp add: max_drawdown_2d_def max_axis1_def rows_def Let_def)

lemma max_drawdown_2d_no_dimension_error:
  "max_drawdown_2d b q \<noteq> Inl (ValueError ''cumulative_profits must be a 1D or 2D array.'')"
  by (simp add: max_drawdown_2d_def max_axis1_def Let_def)

text \<open>
  Claim C9, as the source has it. \<open>calculate_max_drawdown\<close> accepts a one-dimensional
  array: the call equals the call on the same elements arranged as one row, and when the
  array has at least one element the result is a vector of one entry. The dimensionality
  error is raised exactly for the arrays whose number of dimensions is neither 1 nor 2.
  (An empty one-dimensional array is reshaped to one row of no column, on which the row
  maximum is refused, as it is for every two-dimensional array without columns.)
\<close>

theorem max_drawdown_1d:
  assumes "ndim a = 1"
  shows "calculate_max_drawdown (PyArray a) p
           = calculate_max_drawdown (PyArray (NDArray [1, length (flat a)] (flat a))) p
       \<and> (flat a \<noteq> [] \<longrightarrow> (\<exists>v. calculate_max_drawdown (PyArray a) p = Inr [v]))
       \<and> (\<forall>x. (calculate_max_drawdown x p
                 = Inl (ValueError ''cumulative_profits must be a 1D or 2D array.''))
              = (\<exists>b. x = PyArray b \<and> ndim b \<noteq> 1 \<and> ndim b \<noteq> 2))"
proof -
  have one: "calculate_max_drawdown (PyArray a) p
       = max_drawdown_2d (NDArray [1, length (flat a)] (flat a)) p"
    using assms by (simp add: calculate_max_drawdown_def reshape_one_row_def)
  have two: "calculate_max_drawdown (PyArray (NDArray [1, length (flat a)] (flat a))) p
       = max_drawdown_2d (NDArray [1, length (flat a)] (flat a)) p"
    by (simp add: calculate_max_drawdown_def ndim_def)
  have three: "flat a \<noteq> [] \<longrightarrow> (\<exists>v. calculate_max_drawdown (PyArray a) p = Inr [v])"
    using one max_drawdown_one_row[of "flat a" p] by simp
  have four: "(calculate_max_drawdown x p
                 = Inl (ValueError ''cumulative_profits must be a 1D or 2D array.''))
              = (\<exists>b. x = PyArray b \<and> ndim b \<noteq> 1 \<and> ndim b \<noteq> 2)" for x
    by (cases x) (auto simp: calculate_max_drawdown_def max_drawdown_2d_no_dimension_error)
  show ?thesis using one two three four by simp
qed

theorem max_drawdown_1d_witness:
  "ndim (NDArray [3] [100, 50, 80 :: real]) = 1
   \<and> calculate_max_drawdown (PyArray (NDArray [3] [100, 50, 80])) False
       = calculate_max_drawdown (PyArray (NDArray [1, 3] [100, 50, 80])) False
   \<and> (\<exists>v. calculate_max_drawdown (PyArray (NDArray [3] [100, 50, 80])) False = Inr [v])
   \<and> calculate_max_drawdown (PyArray (NDArray [2, 2, 1] [1, 2, 3, 4])) False
       = Inl (ValueError ''cumulative_profits must be a 1D or 2D array.'')"
proof -
  let ?a = "NDArray [3] [100, 50, 80 :: real]"
  let ?b = "NDArray [2, 2, 1] [1, 2, 3, 4 :: real]"
  have d: "ndim ?a = 1" by (simp add: ndim_def)
  note t = max_drawdown_1d[OF d, of False]
  have r: "NDArray [1, length (flat ?a)] (flat ?a) = NDArray [1, 3] [100, 50, 80]" by simp
  have c1: "calculate_max_drawdown (PyArray ?a) False
       = calculate_max_drawdown (PyArray (NDArray [1, 3] [100, 50, 80])) False"
    using t[THEN conjunct1] unfolding r .
  have ne: "flat ?a \<noteq> []" by simp
  have c2: "\<exists>v. calculate_max_drawdown (PyArray ?a) False = Inr [v]"
    using t[THEN conjunct2, THEN conjunct1] ne by (rule mp)
  have e: "\<exists>b. PyArray ?b = PyArray b \<and> ndim b \<noteq> 1 \<and> ndim b \<noteq> 2"
    by (simp add: ndim_def)
  have c3: "calculate_max_drawdown (PyArray ?b) False
       = Inl (ValueError ''cumulative_profits must be a 1D or 2D array.'')"
    using t[THEN conjunct2, THEN conjunct2, THEN spec, of "PyArray ?b"] e by (rule iffD2)
  show ?thesis using d c1 c2 c3 by blast
qed

text \<open>
  The claim as it was worded promises a vector of one entry for every one-dimensional
  array. The empty array refutes it: the call raises in the row maximum.
\<close>

theorem max_drawdown_1d_empty_counterexample:
  "\<not> (\<exists>v. calculate_max_drawdown (PyArray (NDArray [0] [])) False = Inr [v])"
  by (simp add: calculate_max_drawdown_def ndim_def reshape_one_row_def max_drawdown_2d_def
        max_axis1_def rows_def Let_def)

section \<open>Proofs: Monte Carlo simulation\<close>

lemma shuffle_paths_length:
  "length (fst (shuffle_paths np pool k n g)) = n"
proof (induction n arbitrary: g)
  case 0
  then show ?case by simp
next
  case (Suc n)
  obtain q g1 where q: "np_permutation np g pool = (q, g1)" by (cases "np_permutation np g pool")
  obtain ps g2 where ps: "shuffle_paths np pool k n g1 = (ps, g2)"
    by (cases "shuffle_paths np pool k n g1")
  have "length ps = n" using Suc.IH[of g1] ps by simp
  then show ?case using q ps by simp
qed

lemma mset_rotate_pool: "mset (rotate n xs) = mset xs"
proof -
  have "mset (drop (n mod length xs) xs @ take (n mod length xs) xs)
        = mset (take (n mod length xs) xs @ drop (n mod length xs) xs)"
    by (simp only: mset_append union_commute)
  then show ?thesis by (simp add: rotate_drop_take)
qed

lemma shuffle_paths_rows:
  assumes "\<And>g xs. mset (fst (np_permutation np g xs)) = mset xs"
  shows "p \<in> set (fst (shuffle_paths np pool (length pool) n g)) \<Longrightarrow> mset p = mset pool"
proof (induction n arbitrary: g)
  case 0
  then show ?case by simp
next
  case (Suc n)
  obtain q g1 where q: "np_permutation np g pool = (q, g1)" by (cases "np_permutation np g pool")
  obtain ps g2 where ps: "shuffle_paths np pool (length pool) n g1 = (ps, g2)"
    by (cases "shuffle_paths np pool (length pool) n g1")
  have mq: "mset q = mset pool" using assms[of g pool] q by simp
  then have "length q = length pool" by (rule mset_eq_length)
  then have tq: "take (length pool) q = q" by simp
  from Suc.prems q ps tq have "p = q \<or> p \<in> set ps" by simp
  then show ?case
  proof
    assume "p = q" with mq show ?thesis by simp
  next
    assume "p \<in> set ps"
    then have "p \<in> set (fst (shuffle_paths np pool (length pool) n g1))" using ps by simp
    then show ?thesis by (rule Suc.IH)
  qed
qed

lemma row_concat:
  assumes "\<And>r. r \<in> set rs \<Longrightarrow> length r = c" and "i < length rs"
  shows "take c (drop (i * c) (concat rs)) = rs ! i"
  using assms
proof (induction rs arbitrary: i)
  case Nil
  then show ?case by simp
next
  case (Cons r rs)
  have lr: "length r = c" using Cons.prems(1) by simp
  show ?case
  proof (cases i)
    case 0
    then show ?thesis using lr by simp
  next
    case (Suc j)
    have "take c (drop (j * c) (concat rs)) = rs ! j"
      using Cons.prems Suc by (intro Cons.IH) auto
    then show ?thesis using Suc lr by simp
  qed
qed

lemma length_concat_uniform:
  "(\<And>r. r \<in> set rs \<Longrightarrow> length r = c) \<Longrightarrow> length (concat rs) = length rs * c"
  by (induction rs) auto

lemma sort_key_of_mset:
  fixes key :: "'a \<Rightarrow> real"
  shows "mset xs = mset ys \<Longrightarrow> sort (map key xs) = sort (map key ys)"
proof -
  assume "mset xs = mset ys"
  then have "mset (map key xs) = mset (map key ys)" by simp
  then show ?thesis by (metis sorted_list_of_multiset_mset)
qed

text \<open>
  Claim C2. Let the ledger have the float column \<open>Profit\<close>, a pool of \<open>n\<close> profits, and
  let \<open>np.random.permutation\<close> return a rearrangement of its argument. With the method
  \<open>randomized_shuffling\<close>, a call with \<open>num_trades > n\<close> fails with the \<open>ValueError\<close> of
  line 28 of the source (the design document's \<open>InvalidParameterError\<close>), whatever the
  other arguments. With \<open>num_trades = n\<close> (given, or left to its default), a number of
  simulations that is not negative and a seed the generator accepts, the call returns a
  matrix of \<open>num_simulations\<close> rows of \<open>n\<close> entries, and every row is a permutation of
  the pool: the same multiset, hence the same list once both are sorted, under any
  reading of the floats as ordered keys.
\<close>

theorem shuffling_without_replacement:
  assumes perm: "\<And>g xs. mset (fst (np_permutation np g xs)) = mset xs"
      and pool: "lookup trades ''Profit'' = Some (FloatCol pool)"
  shows "(int (length pool) < k \<longrightarrow>
            fst (monte_carlo_simulation np trades num_simulations (Some k)
                   ''randomized_shuffling'' seed g)
            = Inl (ValueError ''num_trades cannot exceed the total number of available trades''))
       \<and> ((num_trades = None \<or> num_trades = Some (int (length pool)))
            \<and> 0 \<le> num_simulations
            \<and> (seed = None \<or> (\<exists>s g'. seed = Some s \<and> np_seed np s = Inr g')) \<longrightarrow>
            (\<exists>m. fst (monte_carlo_simulation np trades num_simulations num_trades
                        ''randomized_shuffling'' seed g) = Inr m
                 \<and> shape m = [nat num_simulations, length pool]
                 \<and> wf_array m
                 \<and> (\<forall>i < nat num_simulations.
                        mset (row m i) = mset pool
                      \<and> (\<forall>key :: pyfloat \<Rightarrow> real.
                            sort (map key (row m i)) = sort (map key pool)))))"
proof (intro conjI impI)
  assume "int (length pool) < k"
  then show "fst (monte_carlo_simulation np trades num_simulations (Some k)
                   ''randomized_shuffling'' seed g)
            = Inl (ValueError ''num_trades cannot exceed the total number of available trades'')"
    using pool by (simp add: monte_carlo_simulation_def)
next
  assume h: "(num_trades = None \<or> num_trades = Some (int (length pool)))
            \<and> 0 \<le> num_simulations
            \<and> (seed = None \<or> (\<exists>s g'. seed = Some s \<and> np_seed np s = Inr g'))"
  define n where "n = nat num_simulations"
  define c where "c = length pool"
  obtain g0 where g0: "(case seed of None \<Rightarrow> Inr g | Some s \<Rightarrow> np_seed np s) = Inr g0"
    using h by (auto split: option.splits)
  obtain paths g1 where sp: "shuffle_paths np pool c n g0 = (paths, g1)"
    by (cases "shuffle_paths np pool c n g0")
  have nt: "(case num_trades of None \<Rightarrow> int (length pool) | Some k \<Rightarrow> k) = int c"
    using h by (auto simp: c_def)
  have res: "fst (monte_carlo_simulation np trades num_simulations num_trades
                        ''randomized_shuffling'' seed g) = Inr (NDArray [n, c] (concat paths))"
    using pool h g0 sp nt by (simp add: monte_carlo_simulation_def Let_def n_def c_def)
  have len: "length paths = n" using shuffle_paths_length[of np pool c n g0] sp by simp
  have ms: "mset p = mset pool" if "p \<in> set paths" for p
    using shuffle_paths_rows[OF perm, of p pool n g0] that sp by (simp add: c_def)
  have lp: "length p = c" if "p \<in> set paths" for p
    using ms[OF that] mset_eq_length[of p pool] by (simp add: c_def)
  have wf: "wf_array (NDArray [n, c] (concat paths))"
    using length_concat_uniform[of paths c] lp len by (simp add: wf_array_def)
  have rw: "row (NDArray [n, c] (concat paths)) i = paths ! i" if "i < n" for i
    using row_concat[of paths c i] lp len that by (simp add: row_def)
  have rows_ok: "\<forall>i < nat num_simulations.
                        mset (row (NDArray [n, c] (concat paths)) i) = mset pool
                      \<and> (\<forall>key :: pyfloat \<Rightarrow> real.
                            sort (map key (row (NDArray [n, c] (concat paths)) i)) = sort (map key pool))"
  proof (intro allI impI)
    fix i assume "i < nat num_simulations"
    then have i: "i < n" by (simp add: n_def)
    then have "paths ! i \<in> set paths" using len by simp
    then have m: "mset (row (NDArray [n, c] (concat paths)) i) = mset pool"
      using ms rw[OF i] by simp
    then show "mset (row (NDArray [n, c] (concat paths)) i) = mset pool
                      \<and> (\<forall>key :: pyfloat \<Rightarrow> real.
                            sort (map key (row (NDArray [n, c] (concat paths)) i)) = sort (map key pool))"
      using sort_key_of_mset by blast
  qed
  show "\<exists>m. fst (monte_carlo_simulation np trades num_simulations num_trades
                        ''randomized_shuffling'' seed g) = Inr m
                 \<and> shape m = [nat num_simulations, length pool]
                 \<and> wf_array m
                 \<and> (\<forall>i < nat num_simulations.
                        mset (row m i) = mset pool
                      \<and> (\<forall>key :: pyfloat \<Rightarrow> real.
                            sort (map key (row m i)) = sort (map key pool)))"
    using res wf rows_ok by (intro exI[of _ "NDArray [n, c] (concat paths)"]) (simp add: n_def c_def)
qed


theorem shuffling_without_replacement_witness:
  "fst (monte_carlo_simulation toy_random example_ledger 2 (Some 4) ''randomized_shuffling'' (Some 1) 7)
     = Inl (ValueError ''num_trades cannot exceed the total number of available trades'')
   \<and> (\<exists>m. fst (monte_carlo_simulation toy_random example_ledger 2 None ''randomized_shuffling'' (Some 1) 7)
            = Inr m
          \<and> shape m = [2, 3]
          \<and> mset (row m 0) = mset [Fin 10, Fin (- 5), Fin 20]
          \<and> mset (row m 1) = mset [Fin 10, Fin (- 5), Fin 20])"
proof -
  let ?pool = "[Fin 10, Fin (- 5), Fin 20]"
  have perm: "\<And>g xs. mset (fst (np_permutation toy_random g xs)) = mset xs"
    by (simp add: toy_random_def mset_rotate_pool)
  have pool: "lookup example_ledger ''Profit'' = Some (FloatCol ?pool)"
    by (simp add: lookup_def example_ledger_def)
  note t = shuffling_without_replacement[OF perm pool, of 4 2 "Some 1" 7 None]
  have a: "int (length ?pool) < 4" by simp
  have b: "(None = None \<or> None = Some (int (length ?pool))) \<and> (0::int) \<le> 2
        \<and> (Some 1 = None \<or> (\<exists>s g'. Some (1::int) = Some s \<and> np_seed toy_random s = Inr g'))"
    by (simp add: toy_random_def)
  have c1: "fst (monte_carlo_simulation toy_random example_ledger 2 (Some 4) ''randomized_shuffling'' (Some 1) 7)
     = Inl (ValueError ''num_trades cannot exceed the total number of available trades'')"
    using t[THEN conjunct1] a by (rule mp)
  have "\<exists>m. fst (monte_carlo_simulation toy_random example_ledger 2 None ''randomized_shuffling'' (Some 1) 7) = Inr m
                 \<and> shape m = [nat 2, length ?pool]
                 \<and> wf_array m
                 \<and> (\<forall>i < nat 2.
                        mset (row m i) = mset ?pool
                      \<and> (\<forall>key :: pyfloat \<Rightarrow> real.
                            sort (map key (row m i)) = sort (map key ?pool)))"
    using t[THEN conjunct2] b by (rule mp)
  then obtain m where m: "fst (monte_carlo_simulation toy_random example_ledger 2 None ''randomized_shuffling'' (Some 1) 7) = Inr m"
     "shape m = [nat 2, length ?pool]"
     "\<forall>i < nat 2. mset (row m i) = mset ?pool
                      \<and> (\<forall>key :: pyfloat \<Rightarrow> real.
                            sort (map key (row m i)) = sort (map key ?pool))"
    by blast
  have r0: "mset (row m 0) = mset ?pool" using m(3) by simp
  have r1: "mset (row m 1) = mset ?pool" using m(3) by simp
  have sh: "shape m = [2, 3]" using m(2) by simp
  show ?thesis using c1 m(1) sh r0 r1 by blast
qed

text \<open>
  Claim C7. With a seed given, the outcome of \<open>monte_carlo_simulation\<close> (the matrix, or
  the error raised) does not depend on the state of the global generator before the
  call: two calls with the same seed and the same inputs return the same matrix,
  whatever was drawn in between.
\<close>

theorem seeded_reproducible:
  "fst (monte_carlo_simulation np trades num_simulations num_trades method (Some s) g1)
   = fst (monte_carlo_simulation np trades num_simulations num_trades method (Some s) g2)"
  by (simp add: monte_carlo_simulation_def Let_def split: option.splits column.splits sum.splits prod.splits)


theorem seeded_reproducible_witness:
  "fst (monte_carlo_simulation toy_random example_ledger 2 (Some 2) ''randomized_shuffling'' (Some 5) 0)
   = fst (monte_carlo_simulation toy_random example_ledger 2 (Some 2) ''randomized_shuffling'' (Some 5) 9)"
  by (rule seeded_reproducible)

section \<open>Proofs: the summary table\<close>

lemma percentile_pair_const:
  assumes "0 \<le> q" "q \<le> 100"
  shows "percentile [v, v] q = Fin v"
proof -
  have "0 \<le> q / 100" "q / 100 \<le> 1" using assms by simp_all
  then have "\<lfloor>q / 100\<rfloor> = 0 \<or> \<lfloor>q / 100\<rfloor> = 1" by linarith
  then have "nat \<lfloor>q / 100\<rfloor> = nat 0 \<or> nat \<lfloor>q / 100\<rfloor> = nat 1"
    by (elim disjE) (simp_all only: simp_thms)
  then have "nat \<lfloor>q / 100\<rfloor> = 0 \<or> nat \<lfloor>q / 100\<rfloor> = 1"
    by (simp only: nat_0 nat_one_as_int[symmetric] nat_int)
  then show ?thesis
  proof
    assume "nat \<lfloor>q / 100\<rfloor> = 0"
    then show ?thesis by (simp add: percentile_def Let_def)
  next
    assume "nat \<lfloor>q / 100\<rfloor> = 1"
    then show ?thesis by (simp add: percentile_def Let_def)
  qed
qed

lemma metrics_row_annual_return:
  assumes "metrics_row cumulative_profits initial_balance level = Inr r"
  shows "annual_return r
         = spec_annual_return (net_profit r) initial_balance (shape cumulative_profits ! 0)"
  using assms
  by (auto simp: metrics_row_def spec_annual_return_def Let_def split: sum.splits if_splits)

lemma two_paths_drawdown:
  "calculate_max_drawdown (PyArray two_paths_one_day) False = Inr [0, 0]"
  by (simp add: two_paths_one_day_def calculate_max_drawdown_def ndim_def max_drawdown_2d_def
        rows_def row_def max_axis1_def Let_def upt_rec)

lemma two_paths_final:
  "column two_paths_one_day (shape two_paths_one_day ! 1 - 1) = [40000, 40000]"
  by (simp add: two_paths_one_day_def column_def upt_rec)

lemma two_paths_row:
  assumes "0 \<le> level" "level \<le> 100"
  shows "metrics_row two_paths_one_day 10000 level
         = Inr \<lparr> confidence_level = level, net_profit = Fin 30000, r_expectancy = Fin 3,
                 annual_return = Fin 1, max_drawdown = Fin 0, return_dd_ratio = PInf \<rparr>"
proof -
  have s: "shape two_paths_one_day = [2, 1]" "ndim two_paths_one_day = 2"
    by (simp_all add: two_paths_one_day_def ndim_def)
  have sq: "(4::real) powr (1 / 2) = 2"
    by (simp add: powr_half_sqrt)
  show ?thesis
    unfolding metrics_row_def two_paths_drawdown two_paths_final
    using assms sq by (simp add: s percentile_pair_const Let_def fne_def fsub_def)
qed

text \<open>
  Claim C4, on the code. The exponent of the annualised return is \<open>1 / len(cumulative_profits)\<close>,
  one over the number of simulated paths (\<open>metrics_row_annual_return\<close>), not one over the
  number of days a path spans. On two paths of one day each, from 10000 to 40000, the
  table reports the net profit 30000 and the annual return \<open>4 ** (1/2) - 1 = 1\<close> at every
  level, where the formula of the claim with \<open>num_days = 1\<close> gives \<open>4 ** 1 - 1 = 3\<close>.
\<close>

theorem annual_return_uses_path_count:
  "(\<exists>table. display_monte_carlo_metrics two_paths_one_day 10000 = Inr table
        \<and> map net_profit table = replicate 7 (Fin 30000)
        \<and> map annual_return table = replicate 7 (Fin 1))
   \<and> spec_annual_return (Fin 30000) 10000 (shape two_paths_one_day ! 1) = Fin 3"
proof -
  have "display_monte_carlo_metrics two_paths_one_day 10000
        = Inr (map (\<lambda>level. \<lparr> confidence_level = level, net_profit = Fin 30000, r_expectancy = Fin 3,
                 annual_return = Fin 1, max_drawdown = Fin 0, return_dd_ratio = PInf \<rparr>)
                confidence_levels)"
    by (simp add: display_monte_carlo_metrics_def confidence_levels_def two_paths_row)
  moreover have "spec_annual_return (Fin 30000) 10000 (shape two_paths_one_day ! 1) = Fin 3"
    by (simp add: spec_annual_return_def two_paths_one_day_def fsub_def)
  moreover have "replicate 7 x = [x, x, x, x, x, x, x]" for x :: pyfloat
    by (simp add: eval_nat_numeral)
  ultimately show ?thesis by (simp add: confidence_levels_def)
qed

section \<open>Proofs: the metrics engine\<close>

text \<open>Frames: a column of timestamps converts to itself, and assignments are looked up.\<close>

lemma collect_Inr: "collect (map Inr xs) = Inr xs"
  by (induction xs) simp_all

lemma collect_time_cells:
  "collect (map (\<lambda>t. to_datetime_cell parse coerce (TimeCell t)) ts) = Inr ts"
  by (simp add: collect_Inr)

lemma to_datetime_TimeCol: "to_datetime parse coerce (TimeCol ts) = Inr ts"
  by (simp add: to_datetime_def comp_def collect_Inr)

lemma set_column_same: "lookup df n = Some c \<Longrightarrow> set_column df n c = df"
  by (induction df) (auto simp: lookup_def)

lemma lookup_set_column:
  "lookup (set_column df n c) m = (if m = n then Some c else lookup df m)"
  by (induction df) (auto simp: lookup_def)

lemma fdiv_NaN_right: "fdiv a NaN = NaN"
  by (cases a) simp_all

lemma no_winners: "list_all (\<lambda>x. \<not> fgt x (Fin 0)) net \<Longrightarrow> filter (\<lambda>x. fgt x (Fin 0)) net = []"
  by (induction net) auto

text \<open>
  Claim C3, on the code. When no trade of the ledger has a strictly positive net profit,
  the selection of winners is empty and its mean is \<open>NaN\<close>. \<open>NaN\<close> is true, so \<open>or 0\<close>
  keeps it, and it differs from 0, so the branch that yields infinity is not taken: the
  ratio is a division by \<open>NaN\<close>. On such a ledger (its date column holding timestamps)
  the call without the benchmark returns, and whenever the call with the benchmark
  returns too, the risk-reward ratio of the report is \<open>NaN\<close>, not infinity.
\<close>

theorem risk_reward_without_winners:
  assumes "lookup trades date_column = Some (TimeCol dates)"
      and "lookup trades ''Net Profit'' = Some (FloatCol net)"
      and "list_all (\<lambda>x. \<not> fgt x (Fin 0)) net"
  shows "(\<exists>r. calculate_metrics parse trades date_column initial_balance False = Inr r
              \<and> risk_reward r = NaN)
       \<and> (\<forall>r. calculate_metrics parse trades date_column initial_balance True = Inr r
              \<longrightarrow> risk_reward r = NaN)"
proof -
  have w: "filter (\<lambda>x. fgt x (Fin 0)) net = []" using assms(3) by (rule no_winners)
  have aw: "py_or (series_mean []) (Fin 0) = NaN"
    by (simp add: series_mean_def py_or_def truthy_def)
  have off: "\<exists>r. calculate_metrics parse trades date_column initial_balance False = Inr r
              \<and> risk_reward r = NaN"
    by (simp add: calculate_metrics_def assms(1,2) to_datetime_TimeCol set_column_same Let_def
          w aw fne_def fdiv_NaN_right)
  have on: "risk_reward r = NaN"
    if "calculate_metrics parse trades date_column initial_balance True = Inr r" for r
    using that
    by (auto simp: calculate_metrics_def assms(1,2) to_datetime_TimeCol set_column_same Let_def
          w aw fne_def fdiv_NaN_right split: sum.splits)
  show ?thesis using off on by blast
qed

theorem risk_reward_without_winners_witness:
  "\<exists>r. calculate_metrics no_parse one_loss ''Entry Date'' 10000 True = Inr r
      \<and> risk_reward r = NaN \<and> risk_reward r \<noteq> PInf \<and> number_of_trades r = 1"
proof -
  have a: "lookup one_loss ''Entry Date'' = Some (TimeCol [Some (Timestamp 2024 3 1 0)])"
    by (simp add: one_loss_def lookup_def)
  have b: "lookup one_loss ''Net Profit'' = Some (FloatCol [Fin (- 50)])"
    by (simp add: one_loss_def lookup_def)
  have c: "list_all (\<lambda>x. \<not> fgt x (Fin 0)) [Fin (- 50)]" by (simp add: fgt_def)
  obtain r where r: "calculate_metrics no_parse one_loss ''Entry Date'' 10000 True = Inr r"
     and n: "number_of_trades r = 1"
    by (simp add: calculate_metrics_def a b to_datetime_TimeCol set_column_same Let_def
          calculate_buy_and_hold_def)
       (simp add: one_loss_def lookup_def nrows_def)
  have "risk_reward r = NaN"
    using risk_reward_without_winners[OF a b c, of no_parse 10000] r by blast
  then show ?thesis using r n by auto
qed

text \<open>
  Claim C5, on the code. On a ledger without rows, the win rate is guarded and is 0, but
  the benchmark is computed before the report is returned and reads the first row of the
  ledger: with \<open>include_buy_and_hold\<close> true, as it is by default, the call raises
  \<open>IndexError\<close>. With the benchmark off the call returns, and the win rate is 0.
\<close>

theorem empty_ledger_metrics:
  assumes "lookup trades date_column = Some (TimeCol dates)"
      and "lookup trades ''Net Profit'' = Some (FloatCol net)"
      and "nrows trades = 0"
  shows "calculate_metrics parse trades date_column initial_balance True
           = Inl (IndexError ''single positional indexer is out-of-bounds'')
       \<and> (\<exists>r. calculate_metrics parse trades date_column initial_balance False = Inr r
              \<and> win_rate r = Fin 0)"
  by (simp add: calculate_metrics_def calculate_buy_and_hold_def assms to_datetime_TimeCol
        set_column_same Let_def)

theorem empty_ledger_metrics_witness:
  "calculate_metrics no_parse empty_ledger ''Entry Date'' 10000 True
           = Inl (IndexError ''single positional indexer is out-of-bounds'')
   \<and> (\<exists>r. calculate_metrics no_parse empty_ledger ''Entry Date'' 10000 False = Inr r
              \<and> win_rate r = Fin 0)"
proof -
  have a: "lookup empty_ledger ''Entry Date'' = Some (TimeCol [])"
    by (simp add: empty_ledger_def lookup_def)
  have b: "lookup empty_ledger ''Net Profit'' = Some (FloatCol [])"
    by (simp add: empty_ledger_def lookup_def)
  have c: "nrows empty_ledger = 0" by (simp add: empty_ledger_def nrows_def)
  show ?thesis using empty_ledger_metrics[OF a b c] .
qed





section \<open>Proofs: the ledger normaliser\<close>

text \<open>
  What a projection, a renaming and a row filter keep of a frame; then the pairing read
  backwards from a successful result.
\<close>

lemma select_columns_lookup:
  "select_columns df ns = Inr out \<Longrightarrow> n \<in> set ns \<Longrightarrow> lookup out n = lookup df n"
proof (induction ns arbitrary: out)
  case Nil
  then show ?case by simp
next
  case (Cons m ns)
  from Cons.prems(1) obtain c r where c: "lookup df m = Some c"
    and r: "select_columns df ns = Inr r" and out: "out = (m, c) # r"
    by (auto split: option.splits sum.splits)
  show ?case
  proof (cases "n = m")
    case True
    then show ?thesis using c out by (simp add: lookup_def)
  next
    case False
    then have "n \<in> set ns" using Cons.prems(2) by simp
    then have "lookup r n = lookup df n" using Cons.IH[OF r] by simp
    then show ?thesis using False out by (simp add: lookup_def)
  qed
qed

lemma select_columns_nrows:
  "select_columns df (m # ns) = Inr out \<Longrightarrow> lookup df m = Some c \<Longrightarrow> nrows out = col_length c"
  by (auto simp: nrows_def split: option.splits sum.splits)

lemma rename_columns_lookup:
  assumes "n \<notin> fst ` set mapping" and "n \<notin> snd ` set mapping"
  shows "lookup (rename_columns mapping df) n = lookup df n"
proof (induction df)
  case Nil
  then show ?case by (simp add: rename_columns_def lookup_def)
next
  case (Cons a df)
  obtain m c where a: "a = (m, c)" by (cases a)
  have key: "(case map_of mapping m of None \<Rightarrow> m | Some n' \<Rightarrow> n') = n \<longleftrightarrow> m = n"
  proof (cases "map_of mapping m")
    case None
    then show ?thesis by simp
  next
    case (Some n')
    then have "(m, n') \<in> set mapping" by (rule map_of_SomeD)
    then have "m \<in> fst ` set mapping" "n' \<in> snd ` set mapping" by force+
    then have "m \<noteq> n" "n' \<noteq> n" using assms by auto
    then show ?thesis using Some by simp
  qed
  show ?case using Cons key a
    by (auto simp: rename_columns_def lookup_def)
qed

lemma keep_map: "keep (map P xs) xs = filter P xs"
  by (induction xs) (auto simp: keep_def)

lemma find_filter: "filter P xs = t # ts \<Longrightarrow> find P xs = Some t"
  by (induction xs) (auto split: if_splits)

lemma find_SomeD: "find P xs = Some x \<Longrightarrow> P x"
  by (induction xs) (auto split: if_splits)

lemma keep_nonempty:
  "keep (map P ys) xs \<noteq> [] \<Longrightarrow> filter P ys \<noteq> []"
proof (induction ys arbitrary: xs)
  case Nil
  then show ?case by (simp add: keep_def)
next
  case (Cons y ys)
  show ?case
  proof (cases xs)
    case Nil
    with Cons.prems show ?thesis by (simp add: keep_def)
  next
    case (Cons x xs')
    show ?thesis
    proof (cases "P y")
      case True
      then show ?thesis by simp
    next
      case False
      then have "keep (map P ys) xs' \<noteq> []" using Cons.prems Cons by (simp add: keep_def)
      then show ?thesis using Cons.IH by simp
    qed
  qed
qed

lemma filter_column_length:
  "0 < col_length (filter_column (map P ys) c) \<Longrightarrow> filter P ys \<noteq> []"
  by (cases c) (auto dest: keep_nonempty)

lemma filter_rows_nonempty:
  assumes "nrows (filter_rows (map P ys) df) \<noteq> 0"
  shows "filter P ys \<noteq> []"
proof (cases df)
  case Nil
  with assms show ?thesis by (simp add: nrows_def filter_rows_def)
next
  case (Cons a rest)
  obtain n c where "a = (n, c)" by (cases a)
  with assms Cons have "0 < col_length (filter_column (map P ys) c)"
    by (simp add: nrows_def filter_rows_def)
  then show ?thesis by (rule filter_column_length)
qed


lemma entry_suffix_not_Type: "pc @ ''_Entry'' \<noteq> ''Type''" "pc @ ''_Exit'' \<noteq> ''Type''"
proof -
  have "length (pc @ ''_Entry'') \<noteq> length ''Type''" by simp
  then show "pc @ ''_Entry'' \<noteq> ''Type''" by metis
  have "length (pc @ ''_Exit'') \<noteq> length ''Type''" by simp
  then show "pc @ ''_Exit'' \<noteq> ''Type''" by metis
qed

lemma entry_suffix_not_Trade: "pc @ ''_Entry'' \<noteq> ''Trade #''" "pc @ ''_Exit'' \<noteq> ''Trade #''"
proof -
  have "last (pc @ ''_Entry'') \<noteq> last ''Trade #''" by simp
  then show "pc @ ''_Entry'' \<noteq> ''Trade #''" by metis
  have "last (pc @ ''_Exit'') \<noteq> last ''Trade #''" by simp
  then show "pc @ ''_Exit'' \<noteq> ''Trade #''" by metis
qed

lemma profit_not_Type: "contains ''Profit'' pf \<Longrightarrow> pf \<noteq> ''Type'' \<and> pf \<noteq> ''Trade #''"
  by auto

lemma merge_on_first:
  "merge_on key ls rs left right = Inr paired \<Longrightarrow>
   \<exists>k rest. paired = (key, k) # rest \<and> nrows paired = col_length k"
  by (auto simp: merge_on_def Let_def nrows_def split: option.splits)



lemma format_pairs_Inr:
  assumes "format_pairs paired ft pc pf = Inr out"
  shows "\<exists>total profit.
          select_columns
             (set_column
               (set_column
                 (rename_columns
                    [(''Date/Time_Entry'', ''Entry Date''),
                     (''Date/Time_Exit'', ''Exit Date''),
                     (pc @ ''_Entry'', ''Entry Price''),
                     (pc @ ''_Exit'', ''Exit Price''),
                     (''Contracts_Entry'', ''Contracts''),
                     (pf, ''Profit''),
                     (''Commission_Entry'', ''Commission'')]
                   (set_column paired ''Type'' (TextCol (replicate (nrows paired) ft))))
                 ''Total Commission'' (FloatCol total))
               ''Net Profit'' (FloatCol (map2 fsub profit total)))
             [''Trade #'', ''Type'', ''Contracts'', ''Entry Date'',
              ''Exit Date'', ''Entry Price'', ''Exit Price'', ''Profit'',
              ''Total Commission'', ''Net Profit''] = Inr out"
  using assms unfolding format_pairs_def Let_def
  by (auto simp del: select_columns.simps split: option.splits column.splits)


lemma pair_trades_Inr:
  assumes "pair_trades d pc pf name = Inr out"
  shows "\<exists>types left right paired.
           lookup d ''Type'' = Some (TextCol types)
         \<and> nrows (filter_rows (map (str_contains ''Entry'') types) d) \<noteq> 0
         \<and> merge_on ''Trade #'' ''_Entry'' ''_Exit'' left right = Inr paired
         \<and> format_pairs paired
              (case filter (str_contains ''Entry'') types of [] \<Rightarrow> Some ''N/A'' | t # ts \<Rightarrow> t)
              pc pf = Inr out"
  using assms unfolding pair_trades_def Let_def
  by (auto simp: keep_map simp del: select_columns.simps
        split: option.splits column.splits sum.splits if_splits)

lemma format_pairs_type:
  assumes fp: "format_pairs paired ft pc pf = Inr out"
      and pf: "contains ''Profit'' pf"
      and first: "paired = (''Trade #'', k) # rest"
      and rows: "nrows paired = col_length k"
  shows "lookup out ''Type'' = Some (TextCol (replicate (nrows out) ft))"
proof -
  define M where "M = [(''Date/Time_Entry'', ''Entry Date''),
                     (''Date/Time_Exit'', ''Exit Date''),
                     (pc @ ''_Entry'', ''Entry Price''),
                     (pc @ ''_Exit'', ''Exit Price''),
                     (''Contracts_Entry'', ''Contracts''),
                     (pf, ''Profit''),
                     (''Commission_Entry'', ''Commission'')]"
  define P where "P = set_column paired ''Type'' (TextCol (replicate (nrows paired) ft))"
  define F where "F = rename_columns M P"
  from format_pairs_Inr[OF fp] obtain total profit where
    sel: "select_columns
             (set_column (set_column F ''Total Commission'' (FloatCol total))
               ''Net Profit'' (FloatCol (map2 fsub profit total)))
             [''Trade #'', ''Type'', ''Contracts'', ''Entry Date'',
              ''Exit Date'', ''Entry Price'', ''Exit Price'', ''Profit'',
              ''Total Commission'', ''Net Profit''] = Inr out"
    unfolding F_def P_def M_def by blast
  have pfn: "pf \<noteq> ''Type''" "pf \<noteq> ''Trade #''" using profit_not_Type[OF pf] by simp_all
  have keysT: "''Type'' \<notin> fst ` set M" "''Type'' \<notin> snd ` set M"
    using pfn entry_suffix_not_Type[of pc] by (auto simp: M_def)
  have keysK: "''Trade #'' \<notin> fst ` set M" "''Trade #'' \<notin> snd ` set M"
    using pfn entry_suffix_not_Trade[of pc] by (auto simp: M_def)
  have FT: "lookup F ''Type'' = Some (TextCol (replicate (nrows paired) ft))"
    unfolding F_def P_def by (simp add: rename_columns_lookup[OF keysT] lookup_set_column)
  have FK: "lookup F ''Trade #'' = Some k"
    unfolding F_def P_def
    by (simp add: rename_columns_lookup[OF keysK] lookup_set_column) (simp add: first lookup_def)
  have oT: "lookup out ''Type'' = Some (TextCol (replicate (nrows paired) ft))"
    using select_columns_lookup[OF sel, of "''Type''"] FT by (simp add: lookup_set_column)
  have "lookup (set_column (set_column F ''Total Commission'' (FloatCol total))
               ''Net Profit'' (FloatCol (map2 fsub profit total))) ''Trade #'' = Some k"
    using FK by (simp add: lookup_set_column)
  then have "nrows out = col_length k" using select_columns_nrows[OF sel] by simp
  then show ?thesis using oT rows by simp
qed

lemma pair_trades_type:
  assumes ok: "pair_trades d pc pf name = Inr out" and pf: "contains ''Profit'' pf"
  shows "\<exists>types t. lookup d ''Type'' = Some (TextCol types)
           \<and> find (str_contains ''Entry'') types = Some t
           \<and> lookup out ''Type'' = Some (TextCol (replicate (nrows out) t))"
proof -
  from pair_trades_Inr[OF ok] obtain types left right paired where
    ty: "lookup d ''Type'' = Some (TextCol types)"
    and ne: "nrows (filter_rows (map (str_contains ''Entry'') types) d) \<noteq> 0"
    and mg: "merge_on ''Trade #'' ''_Entry'' ''_Exit'' left right = Inr paired"
    and fp: "format_pairs paired
              (case filter (str_contains ''Entry'') types of [] \<Rightarrow> Some ''N/A'' | t # ts \<Rightarrow> t)
              pc pf = Inr out"
    by blast
  from filter_rows_nonempty[OF ne] obtain t ts where
    f: "filter (str_contains ''Entry'') types = t # ts"
    by (cases "filter (str_contains ''Entry'') types") auto
  then have fd: "find (str_contains ''Entry'') types = Some t" by (rule find_filter)
  from merge_on_first[OF mg] obtain k rest where
    p: "paired = (''Trade #'', k) # rest" and r: "nrows paired = col_length k" by blast
  have "lookup out ''Type'' = Some (TextCol (replicate (nrows out) t))"
    using format_pairs_type[OF _ pf p r, of t pc out] fp f by simp
  then show ?thesis using ty fd by blast
qed


lemma body_pairing:
  assumes "\<not> list_all (\<lambda>col. col \<in> set (columns td)) final_format_cols"
      and "format_trade_data_body parse td name = (td', Inr out)"
  shows "\<exists>pc pf contracts.
           find (contains ''Profit'') (columns td) = Some pf
         \<and> lookup td ''Contracts'' = Some (FloatCol contracts)
         \<and> td' = set_column
                   (set_column td ''Lots'' (FloatCol (map (\<lambda>x. fdiv x (Fin 100000)) contracts)))
                   ''Commission''
                   (FloatCol (map (\<lambda>x. fmul x (Fin 4)) (map (\<lambda>x. fdiv x (Fin 100000)) contracts)))
         \<and> pair_trades td' pc pf name = Inr out"
  using assms unfolding format_trade_data_body_def Let_def
  by (auto simp del: select_columns.simps split: option.splits column.splits)

lemma raw_export_run:
  "format_trade_data no_parse raw_export ''trades.csv'' = (raw_export_after, Some raw_export_normalised)"
  by code_simp

text \<open>
  Claim C10. In the pairing path of the normaliser (the input is not in final format),
  whenever a ledger is returned, the input has a text column \<open>Type\<close> with a first entry
  row (the first row whose type contains \<open>entry\<close>, in any case), and the column \<open>Type\<close> of
  the ledger holds the type of that row in every row: all normalised trades share one
  side, whatever the type of their own entry.
\<close>

theorem normalised_type_is_first_entry_type:
  assumes pairing: "\<not> list_all (\<lambda>col. col \<in> set (columns trade_data)) final_format_cols"
      and ok: "format_trade_data parse trade_data input_filename = (trade_data', Some out)"
  shows "\<exists>types t. lookup trade_data ''Type'' = Some (TextCol types)
           \<and> find (str_contains ''Entry'') types = Some t
           \<and> lookup out ''Type'' = Some (TextCol (replicate (nrows out) t))"
proof -
  from ok have body: "format_trade_data_body parse trade_data input_filename = (trade_data', Inr out)"
    unfolding format_trade_data_def
    by (auto split: prod.splits sum.splits)
  from body_pairing[OF pairing body] obtain pc pf contracts where
    pf: "find (contains ''Profit'') (columns trade_data) = Some pf"
    and td': "trade_data' = set_column
                   (set_column trade_data ''Lots'' (FloatCol (map (\<lambda>x. fdiv x (Fin 100000)) contracts)))
                   ''Commission''
                   (FloatCol (map (\<lambda>x. fmul x (Fin 4)) (map (\<lambda>x. fdiv x (Fin 100000)) contracts)))"
    and pt: "pair_trades trade_data' pc pf input_filename = Inr out"
    by blast
  have "contains ''Profit'' pf" using pf by (rule find_SomeD)
  from pair_trades_type[OF pt this] obtain types t where
    ty: "lookup trade_data' ''Type'' = Some (TextCol types)"
    and fd: "find (str_contains ''Entry'') types = Some t"
    and o: "lookup out ''Type'' = Some (TextCol (replicate (nrows out) t))"
    by blast
  have "lookup trade_data ''Type'' = Some (TextCol types)"
    using ty unfolding td' by (simp add: lookup_set_column)
  then show ?thesis using fd o by blast
qed


theorem normalised_type_is_first_entry_type_witness:
  "\<not> list_all (\<lambda>col. col \<in> set (columns raw_export)) final_format_cols
   \<and> (\<exists>trade_data' out.
         format_trade_data no_parse raw_export ''trades.csv'' = (trade_data', Some out)
       \<and> lookup raw_export ''Type''
           = Some (TextCol [Some ''Entry Long'', Some ''Exit Long'',
                            Some ''Entry Short'', Some ''Exit Short''])
       \<and> lookup out ''Type'' = Some (TextCol [Some ''Entry Long'', Some ''Entry Long'']))"
proof -
  have pairing: "\<not> list_all (\<lambda>col. col \<in> set (columns raw_export)) final_format_cols"
    by code_simp
  from normalised_type_is_first_entry_type[OF pairing raw_export_run] obtain types t where
    ty: "lookup raw_export ''Type'' = Some (TextCol types)"
    and fd: "find (str_contains ''Entry'') types = Some t"
    and o: "lookup raw_export_normalised ''Type''
            = Some (TextCol (replicate (nrows raw_export_normalised) t))"
    by blast
  have ty': "lookup raw_export ''Type''
           = Some (TextCol [Some ''Entry Long'', Some ''Exit Long'',
                            Some ''Entry Short'', Some ''Exit Short''])"
    by (simp add: raw_export_def lookup_def)
  then have types: "types = [Some ''Entry Long'', Some ''Exit Long'',
                            Some ''Entry Short'', Some ''Exit Short'']"
    using ty by simp
  have "find (str_contains ''Entry'')
          [Some ''Entry Long'', Some ''Exit Long'', Some ''Entry Short'', Some ''Exit Short'']
        = Some (Some ''Entry Long'')"
    by code_simp
  then have t: "t = Some ''Entry Long''" using fd types by simp
  have n: "nrows raw_export_normalised = 2" by (simp add: raw_export_normalised_def nrows_def)
  have "lookup raw_export_normalised ''Type''
        = Some (TextCol [Some ''Entry Long'', Some ''Entry Long''])"
    using o unfolding t n by (simp add: eval_nat_numeral)
  then show ?thesis using pairing raw_export_run ty' by blast
qed

text \<open>
  Claim C6, on the code. The normaliser and the monthly table assign to columns of the
  frame they are given. In the pairing path, once the columns are found and \<open>Contracts\<close>
  is a float column, the caller's frame has the columns \<open>Lots\<close> and \<open>Commission\<close> after
  the call, whether a ledger is returned or not. After the monthly table is shown for a
  ledger whose date column holds timestamps, the caller's ledger has the columns \<open>Year\<close>,
  \<open>Month\<close> and \<open>Month_Num\<close>.
\<close>

theorem callers_frame_is_assigned:
  "(\<not> list_all (\<lambda>col. col \<in> set (columns trade_data)) final_format_cols
     \<and> find (\<lambda>col. col \<notin> set (columns trade_data)) required_columns = None
     \<and> find (prefix ''Price'') (columns trade_data) = Some price_column
     \<and> find (contains ''Profit'') (columns trade_data) = Some profit_column
     \<and> lookup trade_data ''Contracts'' = Some (FloatCol contracts)
    \<longrightarrow> fst (format_trade_data parse trade_data input_filename)
        = set_column
            (set_column trade_data ''Lots'' (FloatCol (map (\<lambda>x. fdiv x (Fin 100000)) contracts)))
            ''Commission''
            (FloatCol (map (\<lambda>x. fmul (fdiv x (Fin 100000)) (Fin 4)) contracts)))
   \<and> (lookup trades date_column = Some (TimeCol dates)
        \<and> date_column \<noteq> ''Year'' \<and> date_column \<noteq> ''Month''
    \<longrightarrow> monthly_performance_table_frame parse trades date_column
        = set_column
            (set_column
               (set_column trades ''Year'' (TextCol (year_strings dates)))
               ''Month'' (TextCol (map month_name_of dates)))
            ''Month_Num'' (FloatCol (map month_number_of dates)))"
proof (intro conjI impI)
  assume h: "\<not> list_all (\<lambda>col. col \<in> set (columns trade_data)) final_format_cols
     \<and> find (\<lambda>col. col \<notin> set (columns trade_data)) required_columns = None
     \<and> find (prefix ''Price'') (columns trade_data) = Some price_column
     \<and> find (contains ''Profit'') (columns trade_data) = Some profit_column
     \<and> lookup trade_data ''Contracts'' = Some (FloatCol contracts)"
  then have "fst (format_trade_data_body parse trade_data input_filename)
        = set_column
            (set_column trade_data ''Lots'' (FloatCol (map (\<lambda>x. fdiv x (Fin 100000)) contracts)))
            ''Commission''
            (FloatCol (map (\<lambda>x. fmul (fdiv x (Fin 100000)) (Fin 4)) contracts))"
    unfolding format_trade_data_body_def Let_def by (simp add: comp_def)
  then show "fst (format_trade_data parse trade_data input_filename)
        = set_column
            (set_column trade_data ''Lots'' (FloatCol (map (\<lambda>x. fdiv x (Fin 100000)) contracts)))
            ''Commission''
            (FloatCol (map (\<lambda>x. fmul (fdiv x (Fin 100000)) (Fin 4)) contracts))"
    unfolding format_trade_data_def by (auto split: prod.splits sum.splits)
next
  assume "lookup trades date_column = Some (TimeCol dates)
        \<and> date_column \<noteq> ''Year'' \<and> date_column \<noteq> ''Month''"
  then show "monthly_performance_table_frame parse trades date_column
        = set_column
            (set_column
               (set_column trades ''Year'' (TextCol (year_strings dates)))
               ''Month'' (TextCol (map month_name_of dates)))
            ''Month_Num'' (FloatCol (map month_number_of dates))"
    by (simp add: monthly_performance_table_frame_def to_datetime_TimeCol set_column_same Let_def)
qed

theorem callers_frame_is_assigned_witness:
  "fst (format_trade_data no_parse raw_export ''trades.csv'') = raw_export_after
   \<and> raw_export_after \<noteq> raw_export
   \<and> monthly_performance_table_frame no_parse one_loss ''Entry Date'' = one_loss_after
   \<and> one_loss_after \<noteq> one_loss"
proof -
  note t = callers_frame_is_assigned[where trade_data = raw_export and parse = no_parse
      and input_filename = "''trades.csv''" and price_column = "''Price USD''"
      and profit_column = "''Profit USD''"
      and contracts = "[Fin 100000, Fin 100000, Fin 200000, Fin 200000]"
      and trades = one_loss and date_column = "''Entry Date''"
      and dates = "[Some (Timestamp 2024 3 1 0)]"]
  have h1: "\<not> list_all (\<lambda>col. col \<in> set (columns raw_export)) final_format_cols
     \<and> find (\<lambda>col. col \<notin> set (columns raw_export)) required_columns = None
     \<and> find (prefix ''Price'') (columns raw_export) = Some ''Price USD''
     \<and> find (contains ''Profit'') (columns raw_export) = Some ''Profit USD''
     \<and> lookup raw_export ''Contracts''
         = Some (FloatCol [Fin 100000, Fin 100000, Fin 200000, Fin 200000])"
    by code_simp
  have h2: "lookup one_loss ''Entry Date'' = Some (TimeCol [Some (Timestamp 2024 3 1 0)])
        \<and> ''Entry Date'' \<noteq> ''Year'' \<and> ''Entry Date'' \<noteq> ''Month''"
    by code_simp
  have a: "fst (format_trade_data no_parse raw_export ''trades.csv'')
        = set_column
            (set_column raw_export ''Lots''
               (FloatCol (map (\<lambda>x. fdiv x (Fin 100000))
                  [Fin 100000, Fin 100000, Fin 200000, Fin 200000])))
            ''Commission''
            (FloatCol (map (\<lambda>x. fmul (fdiv x (Fin 100000)) (Fin 4))
               [Fin 100000, Fin 100000, Fin 200000, Fin 200000]))"
    using t[THEN conjunct1] h1 by (rule mp)
  have a': "set_column
            (set_column raw_export ''Lots''
               (FloatCol (map (\<lambda>x. fdiv x (Fin 100000))
                  [Fin 100000, Fin 100000, Fin 200000, Fin 200000])))
            ''Commission''
            (FloatCol (map (\<lambda>x. fmul (fdiv x (Fin 100000)) (Fin 4))
               [Fin 100000, Fin 100000, Fin 200000, Fin 200000]))
        = raw_export_after"
    by code_simp
  have b: "monthly_performance_table_frame no_parse one_loss ''Entry Date''
        = set_column
            (set_column
               (set_column one_loss ''Year'' (TextCol (year_strings [Some (Timestamp 2024 3 1 0)])))
               ''Month'' (TextCol (map month_name_of [Some (Timestamp 2024 3 1 0)])))
            ''Month_Num'' (FloatCol (map month_number_of [Some (Timestamp 2024 3 1 0)]))"
    using t[THEN conjunct2] h2 by (rule mp)
  have b': "set_column
            (set_column
               (set_column one_loss ''Year'' (TextCol (year_strings [Some (Timestamp 2024 3 1 0)])))
               ''Month'' (TextCol (map month_name_of [Some (Timestamp 2024 3 1 0)])))
            ''Month_Num'' (FloatCol (map month_number_of [Some (Timestamp 2024 3 1 0)]))
        = one_loss_after"
    by code_simp
  have c: "raw_export_after \<noteq> raw_export" by (simp add: raw_export_after_def)
  have d: "one_loss_after \<noteq> one_loss" by (simp add: one_loss_after_def)
  show ?thesis using a a' b b' c d by simp
qed

end
